theory Spec2Isabelle
  imports Main
begin

section \<open>JavaScript values used by the plugin\<close>

text \<open>
  The plugin \<^verbatim>\<open>lib/web/JsonpTemplatePlugin.js\<close> generates JavaScript text. Strings are
  modelled as \<^typ>\<open>string\<close>; a template literal is the concatenation of its pieces.
  The line feed written \<^verbatim>\<open>\n\<close> in the source is the character with code 10.
\<close>

definition LF :: string where
  "LF = [CHR 0x0A]"

text \<open>
  The value stored under an attribute name. The source intends an array of one or two
  expression strings (\<^verbatim>\<open>[valueExpr]\<close> or \<^verbatim>\<open>[valueExpr, guardExpr]\<close>), and in two
  places stores a plain string. Both kinds answer \<^verbatim>\<open>v[i]\<close> and \<^verbatim>\<open>v.length\<close>:
  an array yields its element, a string yields its one-character substring, and an index
  out of range yields \<^verbatim>\<open>undefined\<close>, which a template literal prints as the text
  \<^verbatim>\<open>undefined\<close>.
\<close>

datatype attr_value = Arr "string list" | Str string

fun js_length :: "attr_value \<Rightarrow> nat" where
  "js_length (Arr xs) = length xs"
| "js_length (Str s) = length s"

fun js_index :: "attr_value \<Rightarrow> nat \<Rightarrow> string" where
  "js_index (Arr xs) i = (if i < length xs then xs ! i else ''undefined'')"
| "js_index (Str s) i = (if i < length s then [s ! i] else ''undefined'')"

text \<open>
  A plain object is the list of its own string-keyed properties in insertion order, the
  keys pairwise distinct. An object literal evaluates its properties left to right;
  writing a key that exists already replaces the value and keeps the position. A spread
  \<^verbatim>\<open>...o\<close> writes the properties of \<^verbatim>\<open>o\<close> in their enumeration order.
\<close>

type_synonym 'v js_object = "(string \<times> 'v) list"

fun obj_put :: "string \<Rightarrow> 'v \<Rightarrow> 'v js_object \<Rightarrow> 'v js_object" where
  "obj_put k v [] = [(k, v)]"
| "obj_put k v ((k', v') # rest) =
     (if k = k' then (k, v) # rest else (k', v') # obj_put k v rest)"

text \<open>
  \<^verbatim>\<open>Object.entries\<close> enumerates own properties in the language's property order: first
  the keys that are array indices (the canonical decimal form of an integer from 0 to
  \<open>2\<^sup>3\<^sup>2 - 2\<close>) in ascending numeric order, then all other string keys in insertion
  order.
\<close>

definition is_digit :: "char \<Rightarrow> bool" where
  "is_digit c = (c \<in> set ''0123456789'')"

definition digit_val :: "char \<Rightarrow> nat" where
  "digit_val c = of_char c - 48"

definition decimal_val :: "string \<Rightarrow> nat" where
  "decimal_val s = foldl (\<lambda>n c. 10 * n + digit_val c) 0 s"

definition is_array_index :: "string \<Rightarrow> bool" where
  "is_array_index k =
     (k \<noteq> [] \<and> list_all is_digit k \<and> (k = ''0'' \<or> hd k \<noteq> CHR ''0'')
      \<and> decimal_val k < 4294967295)"

definition object_entries :: "'v js_object \<Rightarrow> (string \<times> 'v) list" where
  "object_entries obj =
     sort_key (\<lambda>e. decimal_val (fst e)) (filter (\<lambda>e. is_array_index (fst e)) obj)
     @ filter (\<lambda>e. \<not> is_array_index (fst e)) obj"

definition obj_spread :: "'v js_object \<Rightarrow> 'v js_object \<Rightarrow> 'v js_object" where
  "obj_spread src obj = fold (\<lambda>e acc. obj_put (fst e) (snd e) acc) (object_entries src) obj"

section \<open>Chunks, options and collaborators outside the plugin file\<close>

text \<open>
  Values handed to \<^verbatim>\<open>JSON.stringify\<close>: chunk and module ids are numbers or strings,
  \<^verbatim>\<open>chunk.id\<close> and \<^verbatim>\<open>chunk.ids\<close> may be \<^verbatim>\<open>null\<close>, entry info is an array of arrays.
\<close>

datatype json = JNull | JNum int | JStr string | JArr "json list"

text \<open>
  A chunk, as far as the plugin reads it: \<^verbatim>\<open>chunk.id\<close>, \<^verbatim>\<open>chunk.ids\<close>, whether it is
  an instance of \<^verbatim>\<open>HotUpdateChunk\<close>, and the answer of \<^verbatim>\<open>chunk.hasRuntime()\<close>.
  \<open>chunk_ref\<close> is the identity of the chunk object (what a \<^verbatim>\<open>WeakSet\<close> compares).
\<close>

type_synonym chunk_ref = nat

record chunk =
  chunk_ref :: chunk_ref
  chunk_id :: json
  chunk_ids :: json
  isHotUpdateChunk :: bool
  hasRuntime :: bool

text \<open>
  The output options the plugin reads. \<^verbatim>\<open>crossOriginLoading\<close> and
  \<^verbatim>\<open>jsonpScriptType\<close> are \<^verbatim>\<open>false\<close> (here \<open>None\<close>) or a string; the source tests
  them for truthiness, and the empty string is falsy: \<open>when_truthy x f\<close> is
  \<^verbatim>\<open>(x ? f(x) : {})\<close>.
\<close>

record outputOptions =
  globalObject :: string
  jsonpFunction :: string
  hotUpdateFunction :: string
  crossOriginLoading :: "string option"
  chunkLoadTimeout :: nat
  jsonpScriptType :: "string option"

fun when_truthy :: "string option \<Rightarrow> (string \<Rightarrow> 'a list) \<Rightarrow> 'a list" where
  "when_truthy None f = []"
| "when_truthy (Some s) f = (if s \<noteq> [] then f s else [])"

text \<open>
  A capability set is a JavaScript \<^verbatim>\<open>Set\<close> object: a list without duplicates in
  insertion order, reached through a reference. The \<^verbatim>\<open>RuntimeGlobals\<close> constants the
  plugin names are pairwise different.
\<close>

datatype runtimeGlobal =
    ensureChunkHandlers | hmrDownloadUpdateHandlers | hmrDownloadManifest
  | moduleFactoriesAddOnly | hasOwnProperty
  | publicPath | getChunkScriptFilename | getChunkUpdateScriptFilename
  | moduleCache | hmrModuleData | getUpdateManifestFilename
  | startup | startupNoDefault | require | scriptNonce
  | otherGlobal string

type_synonym set_ref = nat

text \<open>
  A runtime module attached to a chunk. The chunk-loading module is constructed from the
  capability set (kept by reference) and the three code-generation hooks of the
  compilation.
\<close>

datatype runtime_module = JsonpChunkLoadingRuntimeModule set_ref | OtherRuntimeModule string

record chunkGraph =
  getChunkRuntimeModulesInOrder :: "chunk \<Rightarrow> runtime_module list"
  getEntryInfo :: "chunk \<Rightarrow> json list"

record renderContext =
  chunk :: chunk
  chunkGraph :: chunkGraph
  runtimeTemplate_outputOptions :: outputOptions

text \<open>
  \<^verbatim>\<open>Template\<close>, \<^verbatim>\<open>RuntimeTemplate\<close>, \<^verbatim>\<open>RuntimeGlobals\<close>, \<^verbatim>\<open>JsonpHelpers\<close> and the
  language's \<^verbatim>\<open>JSON.stringify\<close> and number formatting are used by the plugin and
  defined elsewhere. They are parameters of the model, collected in one record, so every
  theorem holds for whatever these functions compute.
  \<^item> \<open>stringify v\<close> is \<^verbatim>\<open>JSON.stringify(v)\<close>;
  \<^item> \<open>indent s\<close> is \<^verbatim>\<open>Template.indent(s)\<close> for a string, \<open>indentLines\<close> for an array;
  \<^item> \<open>asString ls\<close> is \<^verbatim>\<open>Template.asString(ls)\<close>;
  \<^item> \<open>basicFunction args body\<close> is \<^verbatim>\<open>runtimeTemplate.basicFunction(args, body)\<close>;
  \<^item> \<open>renderChunkRuntimeModules ms ctx\<close> is the text of
    \<^verbatim>\<open>Template.renderChunkRuntimeModules(ms, ctx)\<close>;
  \<^item> \<open>number_string n\<close> is \<^verbatim>\<open>String(n)\<close> and \<open>seconds_string n\<close> is
    \<^verbatim>\<open>String(n / 1000)\<close> for the configured timeout \<open>n\<close>;
  \<^item> \<open>globalExpr g\<close> is the expression string of the \<^verbatim>\<open>RuntimeGlobals\<close> constant \<open>g\<close>;
  \<^item> \<open>needEntryDeferringCode c\<close> is \<^verbatim>\<open>needEntryDeferringCode(compilation, chunk)\<close>.
\<close>

record host =
  stringify :: "json \<Rightarrow> string"
  indent :: "string \<Rightarrow> string"
  indentLines :: "string list \<Rightarrow> string"
  asString :: "string list \<Rightarrow> string"
  basicFunction :: "string \<Rightarrow> string \<Rightarrow> string"
  renderChunkRuntimeModules :: "runtime_module list \<Rightarrow> renderContext \<Rightarrow> string"
  number_string :: "nat \<Rightarrow> string"
  seconds_string :: "nat \<Rightarrow> string"
  globalExpr :: "runtimeGlobal \<Rightarrow> string"
  needEntryDeferringCode :: "chunk_ref \<Rightarrow> bool"

section \<open>The attribute-set renderer\<close>

text \<open>
  \<^verbatim>\<open>static renderAttributes(varName, attributes)\<close>: one block of lines per entry of
  \<^verbatim>\<open>Object.entries(attributes)\<close>, the blocks concatenated.
\<close>

definition render_entry :: "host \<Rightarrow> string \<Rightarrow> string \<times> attr_value \<Rightarrow> string list" where
  "render_entry h varName e =
     (let key = fst e; valueCondition = snd e;
          setter = varName @ ''.'' @ key @ '' = '' @ js_index valueCondition 0 @ '';''
      in if js_length valueCondition > 1
         then [''if ('' @ js_index valueCondition 1 @ '') {'', indent h setter, ''}'']
         else [setter])"

definition renderAttributes :: "host \<Rightarrow> string \<Rightarrow> attr_value js_object \<Rightarrow> string list" where
  "renderAttributes h varName attributes =
     concat (map (render_entry h varName) (object_entries attributes))"

text \<open>
  The renderer as the specification words it: for each attribute in the insertion order
  of the mapping, the assignment \<^verbatim>\<open>target.attr = valueExpr;\<close>, wrapped in a conditional
  on the guard when a guard expression is present.
\<close>

fun spec_block :: "host \<Rightarrow> string \<Rightarrow> string \<times> string list \<Rightarrow> string list" where
  "spec_block h target (attr, [valueExpr]) =
     [target @ ''.'' @ attr @ '' = '' @ valueExpr @ '';'']"
| "spec_block h target (attr, [valueExpr, guardExpr]) =
     [''if ('' @ guardExpr @ '') {'',
      indent h (target @ ''.'' @ attr @ '' = '' @ valueExpr @ '';''),
      ''}'']"
| "spec_block h target (attr, _) = []"

definition spec_render :: "host \<Rightarrow> string \<Rightarrow> (string \<times> string list) list \<Rightarrow> string list" where
  "spec_render h target spec = concat (map (spec_block h target) spec)"

definition well_formed_spec :: "(string \<times> string list) list \<Rightarrow> bool" where
  "well_formed_spec spec =
     (distinct (map fst spec) \<and> list_all (\<lambda>e. length (snd e) = 1 \<or> length (snd e) = 2) spec)"

definition as_object :: "(string \<times> string list) list \<Rightarrow> attr_value js_object" where
  "as_object spec = map (\<lambda>e. (fst e, Arr (snd e))) spec"

section \<open>The manifest emitter\<close>

text \<open>
  The \<^verbatim>\<open>renderChunk\<close> tap. A \<^verbatim>\<open>ConcatSource\<close> is the list of the pieces added to
  it; its text is their concatenation. \<open>modules\<close> is the text of the module map.
  \<^verbatim>\<open>runtimePart\<close> is \<^verbatim>\<open>false\<close> (here \<open>None\<close>) when the chunk has no runtime
  modules and a source object, which is truthy, otherwise; \<^verbatim>\<open>entriesPart\<close> is
  \<^verbatim>\<open>false\<close> when there are no entries and a string starting with a comma otherwise.
\<close>

definition source :: "string list \<Rightarrow> string" where
  "source pieces = concat pieces"

definition renderChunk :: "host \<Rightarrow> string \<Rightarrow> renderContext \<Rightarrow> string list" where
  "renderChunk h modules renderContext =
     (let c = chunk renderContext;
          options = runtimeTemplate_outputOptions renderContext;
          runtimeModules = getChunkRuntimeModulesInOrder (chunkGraph renderContext) c;
          runtimePart =
            (if length runtimeModules > 0
             then Some (renderChunkRuntimeModules h runtimeModules renderContext)
             else None)
      in if isHotUpdateChunk c then
           [globalObject options @ ''['' @ stringify h (JStr (hotUpdateFunction options)) @ ''](''] @
           [stringify h (chunk_id c) @ '',''] @
           [modules] @
           (case runtimePart of None \<Rightarrow> [] | Some r \<Rightarrow> ['','' @ LF, r]) @
           ['')'']
         else
           (let entries = getEntryInfo (chunkGraph renderContext) c;
                entriesPart =
                  (if length entries > 0 then Some ('','' @ stringify h (JArr entries)) else None)
            in [''('' @ globalObject options @ ''['' @ stringify h (JStr (jsonpFunction options))
                  @ ''] = '' @ globalObject options @ ''['' @ stringify h (JStr (jsonpFunction options))
                  @ ''] || []).push([''] @
               [stringify h (chunk_ids c) @ '',''] @
               [modules] @
               (if entriesPart \<noteq> None \<or> runtimePart \<noteq> None
                then [case entriesPart of Some e \<Rightarrow> e | None \<Rightarrow> '',0'']
                else []) @
               (case runtimePart of None \<Rightarrow> [] | Some r \<Rightarrow> ['','' @ LF, r]) @
               [''])'']))"

section \<open>The hash contributor\<close>

text \<open>
  The \<^verbatim>\<open>chunkHash\<close> tap. The hash object is a parameter: \<open>update hash data\<close> is the
  hash after \<^verbatim>\<open>hash.update(data)\<close>.
\<close>

definition hash_inputs :: "host \<Rightarrow> chunk \<Rightarrow> chunkGraph \<Rightarrow> outputOptions \<Rightarrow> string list" where
  "hash_inputs h c cg options =
     [''JsonpTemplatePlugin'',
      ''1'',
      stringify h (JArr (getEntryInfo cg c)),
      jsonpFunction options,
      hotUpdateFunction options,
      globalObject options]"

definition chunkHash ::
  "host \<Rightarrow> ('h \<Rightarrow> string \<Rightarrow> 'h) \<Rightarrow> chunk \<Rightarrow> 'h \<Rightarrow> chunkGraph \<Rightarrow> outputOptions \<Rightarrow> 'h" where
  "chunkHash h update c hash cg options =
     (if hasRuntime c then hash
      else fold (\<lambda>data acc. update acc data) (hash_inputs h c cg options) hash)"

text \<open>
  A hash object digests the stream of data it is fed: feeding two pieces one after the
  other or their concatenation at once gives the same digest. The finest hash object is
  therefore the stream itself.
\<close>

definition stream_update :: "string \<Rightarrow> string \<Rightarrow> string" where
  "stream_update hash data = hash @ data"

section \<open>The extension hook registry\<close>

text \<open>
  \<^verbatim>\<open>getCompilationHooks\<close> and the module-level \<^verbatim>\<open>WeakMap\<close>. Objects are references
  into a store. The argument is a \<^verbatim>\<open>Compilation\<close> instance (with its identity) or any
  other value. A \<^verbatim>\<open>SyncWaterfallHook\<close> object is stored with its argument names; the
  hooks object holds the references of its four pipelines.
\<close>

datatype js_arg = CompilationInstance nat | OtherValue

datatype js_error = TypeError string

record hooks =
  jsonpScript :: nat
  linkPreload :: nat
  linkPrefetch :: nat
  mutateTag :: nat

record registry =
  compilationHooksMap :: "nat \<Rightarrow> nat option"
  hooksObjects :: "nat \<Rightarrow> hooks option"
  waterfallHooks :: "nat \<Rightarrow> string list option"
  next_ref :: nat

definition new_SyncWaterfallHook :: "string list \<Rightarrow> registry \<Rightarrow> nat \<times> registry" where
  "new_SyncWaterfallHook args r =
     (next_ref r,
      r\<lparr>waterfallHooks := (waterfallHooks r)(next_ref r \<mapsto> args), next_ref := Suc (next_ref r)\<rparr>)"

definition getCompilationHooks :: "js_arg \<Rightarrow> registry \<Rightarrow> (js_error + nat) \<times> registry" where
  "getCompilationHooks compilation r =
     (case compilation of
        OtherValue \<Rightarrow>
          (Inl (TypeError ''The 'compilation' argument must be an instance of Compilation''), r)
      | CompilationInstance c \<Rightarrow>
          (case compilationHooksMap r c of
             Some hooks \<Rightarrow> (Inr hooks, r)
           | None \<Rightarrow>
               (let (h1, r1) = new_SyncWaterfallHook [''source'', ''chunk'', ''hash''] r;
                    (h2, r2) = new_SyncWaterfallHook [''source'', ''chunk'', ''hash''] r1;
                    (h3, r3) = new_SyncWaterfallHook [''source'', ''chunk'', ''hash''] r2;
                    (h4, r4) = new_SyncWaterfallHook [''tag'', ''attributes''] r3;
                    hooks = next_ref r4;
                    r5 = r4\<lparr>hooksObjects := (hooksObjects r4)(hooks \<mapsto>
                              \<lparr>jsonpScript = h1, linkPreload = h2, linkPrefetch = h3, mutateTag = h4\<rparr>),
                            next_ref := Suc (next_ref r4)\<rparr>;
                    r6 = r5\<lparr>compilationHooksMap := (compilationHooksMap r5)(c \<mapsto> hooks)\<rparr>
                in (Inr hooks, r6))))"

section \<open>The tag builders\<close>

text \<open>
  The taps on \<^verbatim>\<open>jsonpScript\<close>, \<^verbatim>\<open>linkPreload\<close> and \<^verbatim>\<open>linkPrefetch\<close>. Each builds an
  attribute object from the output options with an object literal, hands it with the
  tag name to \<^verbatim>\<open>mutateTag.call\<close>, destructures the result into tag name and
  attributes, and renders. The call of the \<^verbatim>\<open>mutateTag\<close> pipeline is the parameter
  \<open>mutateTag_call\<close>, whose result is the destructured pair.

  \<open>object_literal\<close> evaluates the parts of an object literal in source order.
\<close>

type_synonym attributes = "attr_value js_object"

type_synonym mutateTag_call = "string \<Rightarrow> attributes \<Rightarrow> string \<times> attributes"

definition object_literal :: "('v js_object \<Rightarrow> 'v js_object) list \<Rightarrow> 'v js_object" where
  "object_literal parts = fold (\<lambda>part obj. part obj) parts []"

definition jsonpScript_attributes :: "host \<Rightarrow> outputOptions \<Rightarrow> attributes" where
  "jsonpScript_attributes h options =
     object_literal
       [obj_spread (when_truthy (jsonpScriptType options) (\<lambda>v.
                      [(''type'', Arr [stringify h (JStr v)])])),
        obj_put ''charset'' (Arr [stringify h (JStr ''utf-8'')]),
        obj_put ''timeout''
          (Arr [stringify h (JStr (seconds_string h (chunkLoadTimeout options)))]),
        obj_put ''nonce'' (Arr [globalExpr h scriptNonce, globalExpr h scriptNonce]),
        obj_put ''src'' (Arr [''url'']),
        obj_spread (when_truthy (crossOriginLoading options) (\<lambda>v.
                      [(''crossOrigin'',
                           Arr [stringify h (JStr v),
                                ''script.src.indexOf(window.location.origin + '/') !== 0''])])),
        obj_put ''onload'' (Str ''onScriptComplete''),
        obj_put ''onerror'' (Str ''onScriptComplete'')]"

definition onScriptComplete_lines :: "host \<Rightarrow> string list" where
  "onScriptComplete_lines h =
     [''onScriptComplete = '' @ basicFunction h [] [],
      ''// avoid mem leaks in IE.'',
      ''script.onerror = script.onload = null;'',
      ''clearTimeout(timeout);'',
      ''var reportError = loadingEnded();'',
      ''if(reportError) {'',
      indentLines h
        [''var errorType = event && (event.type === 'load' ? 'missing' : event.type);'',
         ''var realSrc = event && event.target && event.target.src;'',
         ''error.message = 'Loading chunk ' + chunkId + ' failed.'' @ [CHR 0x5C] @ ''n(' + errorType + ': ' + realSrc + ')';'',
         ''error.name = 'ChunkLoadError';'',
         ''error.type = errorType;'',
         ''error.request = realSrc;'',
         ''reportError(error);''],
      ''}'']"

definition jsonpScript_tap :: "host \<Rightarrow> outputOptions \<Rightarrow> mutateTag_call \<Rightarrow> string" where
  "jsonpScript_tap h options mutateTag_call =
     (let (tagName, attributes) =
            mutateTag_call (stringify h (JStr ''script'')) (jsonpScript_attributes h options)
      in asString h
           ([''var script = document.createElement('' @ tagName @ '');'',
             ''var onScriptComplete;'',
             ''// create error before stack unwound to get useful stacktrace later'',
             ''var error = new Error();'',
             ''onScriptComplete = '' @
               basicFunction h ''event'' (asString h (onScriptComplete_lines h)),
             '';'',
             ''var timeout = setTimeout('' @
               basicFunction h [] ''onScriptComplete({ type: 'timeout', target: script })'' @
               '', '' @ number_string h (chunkLoadTimeout options) @ '');'']
            @ renderAttributes h ''script'' attributes))"

definition linkPreload_attributes :: "host \<Rightarrow> outputOptions \<Rightarrow> attributes" where
  "linkPreload_attributes h options =
     object_literal
       [obj_spread (when_truthy (jsonpScriptType options) (\<lambda>v.
                      [(''type'', Arr [stringify h (JStr v)])])),
        obj_put ''charset'' (Arr [stringify h (JStr ''utf-8'')]),
        obj_put ''nonce'' (Arr [globalExpr h scriptNonce, globalExpr h scriptNonce]),
        obj_put ''rel'' (Arr [stringify h (JStr ''preload'')]),
        obj_put ''as'' (Arr [stringify h (JStr ''script'')]),
        obj_put ''href''
          (Arr [globalExpr h publicPath @ '' + '' @ globalExpr h getChunkScriptFilename @ ''(chunkId)'']),
        obj_spread (when_truthy (crossOriginLoading options) (\<lambda>v.
                      [(''crossOrigin'',
                           Arr [stringify h (JStr v),
                                ''link.href.indexOf(window.location.origin + '/') !== 0''])]))]"

definition linkPreload_tap :: "host \<Rightarrow> outputOptions \<Rightarrow> mutateTag_call \<Rightarrow> string" where
  "linkPreload_tap h options mutateTag_call =
     (let (tagName, attributes) =
            mutateTag_call (stringify h (JStr ''link'')) (linkPreload_attributes h options)
      in asString h
           ([''var link = document.createElement('' @ tagName @ '');'']
            @ renderAttributes h ''link'' attributes))"

definition linkPrefetch_attributes :: "host \<Rightarrow> outputOptions \<Rightarrow> attributes" where
  "linkPrefetch_attributes h options =
     object_literal
       [obj_put ''nonce'' (Arr [globalExpr h scriptNonce, globalExpr h scriptNonce]),
        obj_put ''rel'' (Arr [stringify h (JStr ''prefetch'')]),
        obj_put ''as'' (Arr [stringify h (JStr ''script'')]),
        obj_put ''href''
          (Arr [globalExpr h publicPath @ '' + '' @ globalExpr h getChunkScriptFilename @ ''(chunkId)'']),
        obj_spread (when_truthy (crossOriginLoading options) (\<lambda>v.
                      [(''crossOrigin'',
                           Arr [stringify h (JStr v)])]))]"

definition linkPrefetch_tap :: "host \<Rightarrow> outputOptions \<Rightarrow> mutateTag_call \<Rightarrow> string" where
  "linkPrefetch_tap h options mutateTag_call =
     (let (tagName, attributes) =
            mutateTag_call (stringify h (JStr ''link'')) (linkPrefetch_attributes h options)
      in asString h
           ([''var link = document.createElement('' @ tagName @ '');'']
            @ renderAttributes h ''link'' attributes))"

section \<open>The runtime-requirement propagator\<close>

text \<open>
  The state the listeners work on: the \<^verbatim>\<open>WeakSet\<close> \<^verbatim>\<open>onceForChunkSet\<close> of the
  compilation, the runtime modules attached to each chunk (\<^verbatim>\<open>compilation.addRuntimeModule\<close>
  attaches one more module to the chunk), and the store of \<^verbatim>\<open>Set\<close> objects.
\<close>

record compilation_state =
  onceForChunkSet :: "chunk_ref set"
  runtimeModules :: "chunk_ref \<Rightarrow> runtime_module list"
  sets :: "set_ref \<Rightarrow> runtimeGlobal list"

definition set_add :: "set_ref \<Rightarrow> runtimeGlobal \<Rightarrow> compilation_state \<Rightarrow> compilation_state" where
  "set_add s g st =
     st\<lparr>sets := (sets st)(s := (if g \<in> set (sets st s) then sets st s else sets st s @ [g]))\<rparr>"

definition addRuntimeModule ::
  "chunk_ref \<Rightarrow> runtime_module \<Rightarrow> compilation_state \<Rightarrow> compilation_state" where
  "addRuntimeModule c m st = st\<lparr>runtimeModules := (runtimeModules st)(c := runtimeModules st c @ [m])\<rparr>"

definition handler :: "chunk_ref \<Rightarrow> set_ref \<Rightarrow> compilation_state \<Rightarrow> compilation_state" where
  "handler c s st =
     (if c \<in> onceForChunkSet st then st
      else
        (let st1 = st\<lparr>onceForChunkSet := insert c (onceForChunkSet st)\<rparr>;
             st2 = set_add s moduleFactoriesAddOnly st1;
             st3 = set_add s hasOwnProperty st2
         in addRuntimeModule c (JsonpChunkLoadingRuntimeModule s) st3))"

text \<open>
  The listeners the plugin registers: the shared \<^verbatim>\<open>handler\<close> (tapped on each of the
  three triggers), the three trigger-specific listeners, and the tree-wide listener on
  \<^verbatim>\<open>additionalTreeRuntimeRequirements\<close>.
\<close>

datatype listener =
    Shared | EnsureSpecific | HmrHandlersSpecific | HmrManifestSpecific | TreeWide

fun run_listener :: "host \<Rightarrow> listener \<Rightarrow> chunk_ref \<Rightarrow> set_ref \<Rightarrow> compilation_state \<Rightarrow> compilation_state" where
  "run_listener h Shared c s st = handler c s st"
| "run_listener h EnsureSpecific c s st =
     set_add s getChunkScriptFilename (set_add s publicPath st)"
| "run_listener h HmrHandlersSpecific c s st =
     set_add s moduleFactoriesAddOnly (set_add s hmrModuleData (set_add s moduleCache
       (set_add s getChunkUpdateScriptFilename (set_add s publicPath st))))"
| "run_listener h HmrManifestSpecific c s st =
     set_add s getUpdateManifestFilename (set_add s publicPath st)"
| "run_listener h TreeWide c s st =
     (let withDefer = needEntryDeferringCode h c;
          st1 = (if withDefer
                 then handler c s (set_add s startupNoDefault (set_add s startup st))
                 else st)
      in if withDefer then set_add s require st1 else st1)"

definition run_listeners ::
  "host \<Rightarrow> listener list \<Rightarrow> chunk_ref \<Rightarrow> set_ref \<Rightarrow> compilation_state \<Rightarrow> compilation_state" where
  "run_listeners h ls c s st = fold (\<lambda>l acc. run_listener h l c s acc) ls st"

text \<open>
  Firing \<^verbatim>\<open>runtimeRequirementInTree.for(g)\<close> runs the plugin's taps on that key in
  registration order: for each of the three triggers the shared handler, then the
  trigger's own listener; the plugin taps no other key.
\<close>

fun taps_for :: "runtimeGlobal \<Rightarrow> listener list" where
  "taps_for ensureChunkHandlers = [Shared, EnsureSpecific]"
| "taps_for hmrDownloadUpdateHandlers = [Shared, HmrHandlersSpecific]"
| "taps_for hmrDownloadManifest = [Shared, HmrManifestSpecific]"
| "taps_for _ = []"

definition runtimeRequirementInTree ::
  "host \<Rightarrow> runtimeGlobal \<Rightarrow> chunk_ref \<Rightarrow> set_ref \<Rightarrow> compilation_state \<Rightarrow> compilation_state" where
  "runtimeRequirementInTree h g c s st = run_listeners h (taps_for g) c s st"

definition is_trigger :: "runtimeGlobal \<Rightarrow> bool" where
  "is_trigger g = (g \<in> {ensureChunkHandlers, hmrDownloadUpdateHandlers, hmrDownloadManifest})"

text \<open>What each trigger's own listener adds, in the order of the source.\<close>

fun specific_of :: "runtimeGlobal \<Rightarrow> runtimeGlobal list" where
  "specific_of ensureChunkHandlers = [publicPath, getChunkScriptFilename]"
| "specific_of hmrDownloadUpdateHandlers =
     [publicPath, getChunkUpdateScriptFilename, moduleCache, hmrModuleData, moduleFactoriesAddOnly]"
| "specific_of hmrDownloadManifest = [publicPath, getUpdateManifestFilename]"
| "specific_of _ = []"

text \<open>
  The plugin's tap on \<^verbatim>\<open>additionalTreeRuntimeRequirements\<close> is the tree-wide listener.
\<close>

definition additionalTreeRuntimeRequirements ::
  "host \<Rightarrow> chunk_ref \<Rightarrow> set_ref \<Rightarrow> compilation_state \<Rightarrow> compilation_state" where
  "additionalTreeRuntimeRequirements h c s st = run_listeners h [TreeWide] c s st"

text \<open>
  A sequence of firings of the two hooks the plugin taps, each on a chunk with a set
  object: \<^verbatim>\<open>runtimeRequirementInTree.for(g)\<close> or \<^verbatim>\<open>additionalTreeRuntimeRequirements\<close>.
\<close>

datatype firing = InTree runtimeGlobal chunk_ref set_ref | AdditionalTree chunk_ref set_ref

fun fire :: "host \<Rightarrow> firing \<Rightarrow> compilation_state \<Rightarrow> compilation_state" where
  "fire h (InTree g c s) st = runtimeRequirementInTree h g c s st"
| "fire h (AdditionalTree c s) st = additionalTreeRuntimeRequirements h c s st"

fun fire_all :: "host \<Rightarrow> firing list \<Rightarrow> compilation_state \<Rightarrow> compilation_state" where
  "fire_all h [] st = st"
| "fire_all h (f # rest) st = fire_all h rest (fire h f st)"

definition fresh_compilation :: compilation_state where
  "fresh_compilation = \<lparr>onceForChunkSet = {}, runtimeModules = (\<lambda>c. []), sets = (\<lambda>s. [])\<rparr>"

section \<open>The generated script-loading state machine\<close>

text \<open>
  The code generated by the \<^verbatim>\<open>jsonpScript\<close> tap declares the variable
  \<^verbatim>\<open>onScriptComplete\<close>, assigns it the completion handler, and arms a timer whose
  callback calls whatever the variable holds. The handler's text is
  \<open>onScriptComplete_lines\<close>; its meaning is modelled here statement by statement.

  Run-time values: \<^verbatim>\<open>undefined\<close>, \<^verbatim>\<open>null\<close>, strings and objects with properties.
\<close>

datatype jsval = VUndefined | VNull | VString string | VObject "(string \<times> jsval) list"

fun js_truthy :: "jsval \<Rightarrow> bool" where
  "js_truthy VUndefined = False"
| "js_truthy VNull = False"
| "js_truthy (VString s) = (s \<noteq> [])"
| "js_truthy (VObject ps) = True"

text \<open>
  \<open>js_get v p\<close> reads property \<open>p\<close> of a truthy value. The handler reads only
  \<^verbatim>\<open>type\<close>, \<^verbatim>\<open>target\<close> and \<^verbatim>\<open>src\<close>, which a string does not have, and guards every
  read with \<^verbatim>\<open>&&\<close>, so no read of \<^verbatim>\<open>undefined\<close> or \<^verbatim>\<open>null\<close> occurs.
\<close>

fun js_get :: "jsval \<Rightarrow> string \<Rightarrow> jsval" where
  "js_get (VObject ps) p = (case map_of ps p of Some v \<Rightarrow> v | None \<Rightarrow> VUndefined)"
| "js_get _ p = VUndefined"

definition js_and :: "jsval \<Rightarrow> (jsval \<Rightarrow> jsval) \<Rightarrow> jsval" where
  "js_and a b = (if js_truthy a then b a else a)"

fun js_to_string :: "jsval \<Rightarrow> string" where
  "js_to_string VUndefined = ''undefined''"
| "js_to_string VNull = ''null''"
| "js_to_string (VString s) = s"
| "js_to_string (VObject ps) = ''[object Object]''"

record error_object =
  message :: jsval
  name :: jsval
  type :: jsval
  request :: jsval

text \<open>
  A function value is the completion handler or the empty function. One load attempt:
  the binding of the variable \<^verbatim>\<open>onScriptComplete\<close>, the handlers stored in
  \<^verbatim>\<open>script.onload\<close> and \<^verbatim>\<open>script.onerror\<close> (\<open>None\<close> is \<^verbatim>\<open>null\<close>), whether the
  timer is still armed, the script element, the pre-allocated error, how often
  \<^verbatim>\<open>loadingEnded\<close> was called, and the arguments the reporter was called with.
\<close>

datatype fn = CompletionHandler | EmptyFunction

record load_state =
  onScriptComplete :: fn
  script_onload :: "fn option"
  script_onerror :: "fn option"
  timeout_armed :: bool
  script :: jsval
  error :: error_object
  loadingEnded_calls :: nat
  reportError_calls :: "error_object list"

text \<open>
  The environment of the generated code: the variable \<^verbatim>\<open>chunkId\<close> and the function
  \<^verbatim>\<open>loadingEnded\<close>; \<open>loadingEnded env n\<close> tells whether its call number \<open>n\<close>
  returns a reporter (truthy) or a falsy value.
\<close>

record load_env =
  chunkId :: jsval
  loadingEnded :: "nat \<Rightarrow> bool"

definition completion_handler :: "load_env \<Rightarrow> jsval \<Rightarrow> load_state \<Rightarrow> load_state" where
  "completion_handler env event st =
     (let st1 = st\<lparr>onScriptComplete := EmptyFunction\<rparr>;
          st2 = st1\<lparr>script_onload := None, script_onerror := None\<rparr>;
          st3 = st2\<lparr>timeout_armed := False\<rparr>;
          reportError = loadingEnded env (loadingEnded_calls st3);
          st4 = st3\<lparr>loadingEnded_calls := Suc (loadingEnded_calls st3)\<rparr>
      in if reportError then
           (let errorType = js_and event (\<lambda>e.
                  if js_get e ''type'' = VString ''load'' then VString ''missing''
                  else js_get e ''type'');
                realSrc = js_and event (\<lambda>e. js_and (js_get e ''target'') (\<lambda>t. js_get t ''src''));
                err = (error st4)\<lparr>
                  message := VString (''Loading chunk '' @ js_to_string (chunkId env) @ '' failed.''
                     @ LF @ ''('' @ js_to_string errorType @ '': '' @ js_to_string realSrc @ '')''),
                  name := VString ''ChunkLoadError'',
                  type := errorType,
                  request := realSrc\<rparr>
            in st4\<lparr>error := err, reportError_calls := reportError_calls st4 @ [err]\<rparr>)
         else st4)"

fun call_fn :: "load_env \<Rightarrow> fn \<Rightarrow> jsval \<Rightarrow> load_state \<Rightarrow> load_state" where
  "call_fn env CompletionHandler event st = completion_handler env event st"
| "call_fn env EmptyFunction event st = st"

text \<open>
  What can happen to a load attempt: the element's success event or failure event is
  dispatched with an event object, or the timer's callback runs. Handlers run one at a
  time, each to completion. Dispatching an event calls the handler the element's
  property holds at that moment, if any; the timer's callback calls the function the
  variable holds at that moment. The timer's callback is allowed to run even after
  \<^verbatim>\<open>clearTimeout\<close>, which covers a callback that was already queued.
\<close>

datatype occurrence = SuccessEvent jsval | FailureEvent jsval | TimerExpires

fun occur :: "load_env \<Rightarrow> occurrence \<Rightarrow> load_state \<Rightarrow> load_state" where
  "occur env (SuccessEvent event) st =
     (case script_onload st of None \<Rightarrow> st | Some f \<Rightarrow> call_fn env f event st)"
| "occur env (FailureEvent event) st =
     (case script_onerror st of None \<Rightarrow> st | Some f \<Rightarrow> call_fn env f event st)"
| "occur env TimerExpires st =
     call_fn env (onScriptComplete st)
       (VObject [(''type'', VString ''timeout''), (''target'', script st)]) st"

fun occur_all :: "load_env \<Rightarrow> occurrence list \<Rightarrow> load_state \<Rightarrow> load_state" where
  "occur_all env [] st = st"
| "occur_all env (x # xs) st = occur_all env xs (occur env x st)"

definition completed :: "load_state \<Rightarrow> bool" where
  "completed st =
     (onScriptComplete st = EmptyFunction \<and> script_onload st = None
      \<and> script_onerror st = None \<and> \<not> timeout_armed st)"

section \<open>Statements of the specification and a concrete host\<close>

text \<open>
  The two wire shapes as the specification writes them: the push statement around the
  elements of the pushed array, and the direct call around its arguments.
\<close>

definition push_statement :: "host \<Rightarrow> outputOptions \<Rightarrow> string \<Rightarrow> string" where
  "push_statement h options elements =
     ''('' @ globalObject options @ ''['' @ stringify h (JStr (jsonpFunction options)) @ ''] = ''
     @ globalObject options @ ''['' @ stringify h (JStr (jsonpFunction options)) @ ''] || []).push([''
     @ elements @ ''])''"

definition hot_update_call :: "host \<Rightarrow> outputOptions \<Rightarrow> string \<Rightarrow> string" where
  "hot_update_call h options arguments =
     globalObject options @ ''['' @ stringify h (JStr (hotUpdateFunction options)) @ '']('' @ arguments @ '')''"

text \<open>
  The registry after a sequence of calls of \<open>getCompilationHooks\<close>, and the condition
  every registry built by such calls meets: cached references were allocated.
\<close>

definition empty_registry :: registry where
  "empty_registry =
     \<lparr>compilationHooksMap = (\<lambda>c. None), hooksObjects = (\<lambda>a. None),
      waterfallHooks = (\<lambda>a. None), next_ref = 0\<rparr>"

fun calls :: "js_arg list \<Rightarrow> registry \<Rightarrow> registry" where
  "calls [] r = r"
| "calls (a # as) r = calls as (snd (getCompilationHooks a r))"

definition allocated :: "registry \<Rightarrow> bool" where
  "allocated r = (\<forall>c hk. compilationHooksMap r c = Some hk \<longrightarrow> hk < next_ref r)"

text \<open>
  One choice of the collaborators, used where a statement is evaluated at a concrete
  input: numbers print in decimal, strings are quoted (the examples contain no character
  that needs an escape), arrays are bracketed and comma-separated, indentation is one
  tab, lines are joined with line feeds.
\<close>

fun show_nat :: "nat \<Rightarrow> string" where
  "show_nat n =
     (if n < 10 then [''0123456789'' ! n]
      else show_nat (n div 10) @ [''0123456789'' ! (n mod 10)])"

declare show_nat.simps [simp del]

fun commas :: "string list \<Rightarrow> string" where
  "commas [] = []"
| "commas [x] = x"
| "commas (x # y # ys) = x @ '','' @ commas (y # ys)"

fun example_stringify :: "json \<Rightarrow> string" where
  "example_stringify JNull = ''null''"
| "example_stringify (JNum n) = (if n < 0 then ''-'' @ show_nat (nat (- n)) else show_nat (nat n))"
| "example_stringify (JStr s) = [CHR 0x22] @ s @ [CHR 0x22]"
| "example_stringify (JArr xs) = ''['' @ commas (map example_stringify xs) @ '']''"

definition example_host :: host where
  "example_host =
     \<lparr> stringify = example_stringify,
       indent = (\<lambda>s. [CHR 0x09] @ s),
       indentLines = (\<lambda>ls. concat (map (\<lambda>l. [CHR 0x09] @ l @ [CHR 0x0A]) ls)),
       asString = (\<lambda>ls. concat (map (\<lambda>l. l @ [CHR 0x0A]) ls)),
       basicFunction = (\<lambda>args body. ''function('' @ args @ '') {'' @ body @ ''}''),
       renderChunkRuntimeModules = (\<lambda>ms ctx. ''/* runtime */''),
       number_string = show_nat,
       seconds_string = (\<lambda>n. show_nat (n div 1000)),
       globalExpr = (\<lambda>g. if g = scriptNonce then ''__webpack_require__.nc''
                          else if g = publicPath then ''__webpack_require__.p''
                          else ''__webpack_require__.u''),
       needEntryDeferringCode = (\<lambda>c. c = 1) \<rparr>"

definition example_options :: outputOptions where
  "example_options =
     \<lparr> globalObject = ''window'', jsonpFunction = ''webpackJsonp'',
       hotUpdateFunction = ''webpackHotUpdate'', crossOriginLoading = Some ''anonymous'',
       chunkLoadTimeout = 120000, jsonpScriptType = None \<rparr>"

definition example_chunk :: "bool \<Rightarrow> chunk" where
  "example_chunk hot =
     \<lparr> chunk_ref = 0, chunk_id = JNum 7, chunk_ids = JArr [JNum 1, JNum 2],
       isHotUpdateChunk = hot, hasRuntime = False \<rparr>"

definition example_context :: "bool \<Rightarrow> json list \<Rightarrow> runtime_module list \<Rightarrow> renderContext" where
  "example_context hot entries rms =
     \<lparr> chunk = example_chunk hot,
       chunkGraph = \<lparr> getChunkRuntimeModulesInOrder = (\<lambda>c. rms), getEntryInfo = (\<lambda>c. entries) \<rparr>,
       runtimeTemplate_outputOptions = example_options \<rparr>"

text \<open>
  The chunk and the set of a firing, whether a firing invokes the shared handler for a
  chunk (a trigger fires on it, or the tree-wide listener runs on it and it needs
  deferred-entry code), and the first firing of a sequence that does.
\<close>

fun firing_chunk :: "firing \<Rightarrow> chunk_ref" where
  "firing_chunk (InTree g c s) = c"
| "firing_chunk (AdditionalTree c s) = c"

fun firing_set :: "firing \<Rightarrow> set_ref" where
  "firing_set (InTree g c s) = s"
| "firing_set (AdditionalTree c s) = s"

fun invokes_handler :: "host \<Rightarrow> chunk_ref \<Rightarrow> firing \<Rightarrow> bool" where
  "invokes_handler h c (InTree g c' s) = (is_trigger g \<and> c' = c)"
| "invokes_handler h c (AdditionalTree c' s) = (needEntryDeferringCode h c' \<and> c' = c)"

definition first_invocation :: "host \<Rightarrow> chunk_ref \<Rightarrow> firing list \<Rightarrow> firing option" where
  "first_invocation h c fs = find (invokes_handler h c) fs"

text \<open>
  What a listener adds to the capability set when it runs in a state, and the condition
  under which running it changes nothing.
\<close>

fun adds :: "host \<Rightarrow> listener \<Rightarrow> chunk_ref \<Rightarrow> compilation_state \<Rightarrow> runtimeGlobal set" where
  "adds h Shared c st =
     (if c \<in> onceForChunkSet st then {} else {moduleFactoriesAddOnly, hasOwnProperty})"
| "adds h EnsureSpecific c st = {publicPath, getChunkScriptFilename}"
| "adds h HmrHandlersSpecific c st =
     {publicPath, getChunkUpdateScriptFilename, moduleCache, hmrModuleData, moduleFactoriesAddOnly}"
| "adds h HmrManifestSpecific c st = {publicPath, getUpdateManifestFilename}"
| "adds h TreeWide c st =
     (if needEntryDeferringCode h c
      then {startup, startupNoDefault, require}
           \<union> (if c \<in> onceForChunkSet st then {} else {moduleFactoriesAddOnly, hasOwnProperty})
      else {})"

fun satisfied :: "host \<Rightarrow> listener \<Rightarrow> chunk_ref \<Rightarrow> set_ref \<Rightarrow> compilation_state \<Rightarrow> bool" where
  "satisfied h Shared c s st = (c \<in> onceForChunkSet st)"
| "satisfied h EnsureSpecific c s st = ({publicPath, getChunkScriptFilename} \<subseteq> set (sets st s))"
| "satisfied h HmrHandlersSpecific c s st =
     ({publicPath, getChunkUpdateScriptFilename, moduleCache, hmrModuleData, moduleFactoriesAddOnly}
        \<subseteq> set (sets st s))"
| "satisfied h HmrManifestSpecific c s st = ({publicPath, getUpdateManifestFilename} \<subseteq> set (sets st s))"
| "satisfied h TreeWide c s st =
     (needEntryDeferringCode h c \<longrightarrow>
        {startup, startupNoDefault, require} \<subseteq> set (sets st s) \<and> c \<in> onceForChunkSet st)"

text \<open>
  The conditional assignment of the nonce, and a block of lines occurring in a list of
  lines.
\<close>

definition nonce_block :: "host \<Rightarrow> string \<Rightarrow> string list" where
  "nonce_block h target =
     [''if ('' @ globalExpr h scriptNonce @ '') {'',
      indent h (target @ ''.nonce = '' @ globalExpr h scriptNonce @ '';''),
      ''}'']"

definition contains_block :: "string list \<Rightarrow> string list \<Rightarrow> bool" where
  "contains_block block ls = (\<exists>before after. ls = before @ block @ after)"

text \<open>
  Two results the \<^verbatim>\<open>mutateTag\<close> pipeline can give besides handing tag and attributes
  back. A registered transform may drop an attribute; \<open>without_nonce\<close> drops the
  nonce. With no transform registered, a waterfall pipeline returns its first argument,
  here the tag-name string, and the builders destructure that string as
  \<^verbatim>\<open>[tagName, attributes]\<close>: the tag name is its first character and the attributes
  are its second character, a one-character string, of which \<^verbatim>\<open>Object.entries\<close> is the
  single entry \<^verbatim>\<open>0\<close> with that character. A string of fewer than two characters
  leaves the attributes \<^verbatim>\<open>undefined\<close>, on which \<^verbatim>\<open>Object.entries\<close> throws (\<open>None\<close>).
\<close>

definition without_nonce :: mutateTag_call where
  "without_nonce tag attributes = (tag, filter (\<lambda>e. fst e \<noteq> ''nonce'') attributes)"

definition destructure_string :: "string \<Rightarrow> (string \<times> attributes) option" where
  "destructure_string tag =
     (if length tag \<ge> 2 then Some ([tag ! 0], [(''0'', Str [tag ! 1])]) else None)"

text \<open>
  A load attempt as the generated code leaves it. The code declares the variable
  \<^verbatim>\<open>onScriptComplete\<close>, allocates the error, assigns the completion handler to the
  variable and arms the timer. The attribute lines that follow assign the completion
  handler neither to \<^verbatim>\<open>script.onload\<close> nor to \<^verbatim>\<open>script.onerror\<close>: the lines
  rendered for these two attributes assign the one-letter expression \<^verbatim>\<open>o\<close> under the
  guard \<^verbatim>\<open>n\<close>. So neither property holds the handler; the error is a fresh
  \<^verbatim>\<open>new Error()\<close>.
\<close>

definition as_generated :: "jsval \<Rightarrow> load_state" where
  "as_generated el =
     \<lparr> onScriptComplete = CompletionHandler,
       script_onload = None,
       script_onerror = None,
       timeout_armed = True,
       script = el,
       error = \<lparr>message = VString [], name = VString ''Error'', type = VUndefined, request = VUndefined\<rparr>,
       loadingEnded_calls = 0,
       reportError_calls = [] \<rparr>"

definition example_env :: load_env where
  "example_env = \<lparr> chunkId = VString ''7'', loadingEnded = (\<lambda>n. True) \<rparr>"

definition example_script :: jsval where
  "example_script = VObject [(''src'', VString ''https://cdn/7.js'')]"

section \<open>Properties of the attribute-set renderer\<close>

lemma object_entries_no_index:
  "list_all (\<lambda>e. \<not> is_array_index (fst e)) obj \<Longrightarrow> object_entries obj = obj"
  unfolding object_entries_def
  by (induction obj) (auto simp: list_all_iff filter_empty_conv)

lemma as_object_no_index:
  "list_all (\<lambda>e. \<not> is_array_index (fst e)) spec \<Longrightarrow>
   list_all (\<lambda>e. \<not> is_array_index (fst e)) (as_object spec)"
  by (induction spec) (auto simp: as_object_def)

lemma render_entry_spec_block:
  "length vs = 1 \<or> length vs = 2 \<Longrightarrow> render_entry h t (k, Arr vs) = spec_block h t (k, vs)"
  by (cases vs; cases "tl vs") (auto simp: render_entry_def Let_def)

lemmas array_index_simps = is_array_index_def is_digit_def decimal_val_def digit_val_def

text \<open>
  Claim C5, as far as it holds. For every target and every attribute spec whose values
  are lists of one or two expressions and whose attribute names are not array indices,
  \<open>renderAttributes\<close> emits, entry by entry in the insertion order of the mapping, the
  assignment \<^verbatim>\<open>target.attr = valueExpr;\<close>, inside \<^verbatim>\<open>if (guardExpr) { ... }\<close> exactly
  when a guard expression is present.
\<close>

theorem renderAttributes_insertion_order:
  assumes "well_formed_spec spec" and "list_all (\<lambda>e. \<not> is_array_index (fst e)) spec"
  shows "renderAttributes h target (as_object spec) = spec_render h target spec"
proof -
  have "object_entries (as_object spec) = as_object spec"
    using assms(2) by (intro object_entries_no_index as_object_no_index)
  moreover have "map (render_entry h target) (as_object spec) = map (spec_block h target) spec"
    using assms(1) unfolding well_formed_spec_def as_object_def
    by (auto simp: list_all_iff render_entry_spec_block)
  ultimately show ?thesis by (simp add: renderAttributes_def spec_render_def)
qed

theorem renderAttributes_insertion_order_witness:
  "well_formed_spec [(''src'', [''url'']), (''crossOrigin'', [''v'', ''g''])]
   \<and> list_all (\<lambda>e. \<not> is_array_index (fst e)) [(''src'', [''url'']), (''crossOrigin'', [''v'', ''g''])]
   \<and> renderAttributes example_host ''script''
        (as_object [(''src'', [''url'']), (''crossOrigin'', [''v'', ''g''])])
      = [''script.src = url;'', ''if (g) {'', [CHR 0x09] @ ''script.crossOrigin = v;'', ''}'']"
proof -
  have a: "well_formed_spec [(''src'', [''url'']), (''crossOrigin'', [''v'', ''g''])]"
    by (simp add: well_formed_spec_def)
  have b: "list_all (\<lambda>e. \<not> is_array_index (fst e))
             [(''src'', [''url'']), (''crossOrigin'', [''v'', ''g''])]"
    by (simp add: array_index_simps)
  show ?thesis
    using a b renderAttributes_insertion_order [OF a b, of example_host "''script''"]
    by (simp add: spec_render_def example_host_def)
qed

text \<open>
  Claim C5 as stated fails: an attribute name that is an array index is enumerated
  before the names inserted earlier. In the spec \<^verbatim>\<open>{b: ["x"], "0": ["y"]}\<close> the block of
  \<^verbatim>\<open>0\<close> is emitted first.
\<close>

theorem renderAttributes_order_counterexample:
  "well_formed_spec [(''b'', [''x'']), (''0'', [''y''])]
   \<and> renderAttributes example_host ''t'' (as_object [(''b'', [''x'']), (''0'', [''y''])])
       = [''t.0 = y;'', ''t.b = x;'']
   \<and> spec_render example_host ''t'' [(''b'', [''x'']), (''0'', [''y''])]
       = [''t.b = x;'', ''t.0 = y;'']
   \<and> renderAttributes example_host ''t'' (as_object [(''b'', [''x'']), (''0'', [''y''])])
       \<noteq> spec_render example_host ''t'' [(''b'', [''x'']), (''0'', [''y''])]"
  by (simp add: well_formed_spec_def renderAttributes_def as_object_def object_entries_def
       array_index_simps render_entry_def spec_render_def)

section \<open>Properties of the manifest emitter\<close>

lemmas ex_simps = example_context_def example_chunk_def example_options_def example_host_def
   push_statement_def hot_update_call_def LF_def

lemma show_nat_digit: "n < 10 \<Longrightarrow> show_nat n = [''0123456789'' ! n]"
  by (simp add: show_nat.simps)

text \<open>
  Claim C1. For a chunk that is not a hot-update chunk the emitted text is the push
  statement whose array holds the chunk's ids and the module map, followed by nothing
  when there are neither entries nor runtime modules, by the serialized entries when
  there are entries, by a literal \<^verbatim>\<open>0\<close> when there are no entries and runtime
  statements follow, and then by the runtime statements if any. For a hot-update chunk
  it is the direct call with the single chunk id, the module map and, if any, the
  runtime statements.
\<close>

theorem renderChunk_wire_shape:
  "source (renderChunk h modules ctx) =
     (let c = chunk ctx; options = runtimeTemplate_outputOptions ctx;
          entries = getEntryInfo (chunkGraph ctx) c;
          rms = getChunkRuntimeModulesInOrder (chunkGraph ctx) c;
          runtime = renderChunkRuntimeModules h rms ctx
      in if isHotUpdateChunk c
         then hot_update_call h options
                (stringify h (chunk_id c) @ '','' @ modules
                 @ (if rms = [] then [] else '','' @ LF @ runtime))
         else push_statement h options
                (stringify h (chunk_ids c) @ '','' @ modules
                 @ (if entries \<noteq> [] then '','' @ stringify h (JArr entries)
                    else if rms \<noteq> [] then '',0'' else [])
                 @ (if rms = [] then [] else '','' @ LF @ runtime)))"
  by (simp add: renderChunk_def source_def Let_def push_statement_def hot_update_call_def)

theorem renderChunk_wire_shape_witness:
  \<open>source (renderChunk example_host ''{}'' (example_context False [] []))
     = ''(window["webpackJsonp"] = window["webpackJsonp"] || []).push([[1,2],{}])''
   \<and> source (renderChunk example_host ''{}'' (example_context False [JArr [JNum 0, JNum 1]] []))
     = ''(window["webpackJsonp"] = window["webpackJsonp"] || []).push([[1,2],{},[[0,1]]])''
   \<and> source (renderChunk example_host ''{}'' (example_context False [] [OtherRuntimeModule ''m'']))
     = ''(window["webpackJsonp"] = window["webpackJsonp"] || []).push([[1,2],{},0,'' @ [CHR 0x0A] @ ''/* runtime */])''
   \<and> source (renderChunk example_host ''{"a":1}'' (example_context True [] []))
     = ''window["webpackHotUpdate"](7,{"a":1})''
   \<and> source (renderChunk example_host ''{"a":1}'' (example_context True [] [OtherRuntimeModule ''m'']))
     = ''window["webpackHotUpdate"](7,{"a":1},'' @ [CHR 0x0A] @ ''/* runtime */)''\<close>
  using renderChunk_wire_shape [of example_host "''{}''" "example_context False [] []"]
        renderChunk_wire_shape [of example_host "''{}''" "example_context False [JArr [JNum 0, JNum 1]] []"]
        renderChunk_wire_shape [of example_host "''{}''" "example_context False [] [OtherRuntimeModule ''m'']"]
        renderChunk_wire_shape [of example_host \<open>''{"a":1}''\<close> "example_context True [] []"]
        renderChunk_wire_shape [of example_host \<open>''{"a":1}''\<close> "example_context True [] [OtherRuntimeModule ''m'']"]
  by (simp add: ex_simps show_nat_digit)

section \<open>Properties of the hash contributor\<close>

text \<open>
  Claim C8, as far as it holds. For a chunk that has the runtime the hash is left
  unchanged. For every other chunk the hash is fed, in this order, the component
  identifier, the format version, the serialized entry info, the queue name, the
  hot-update function name and the global-object expression, and nothing else; so two
  contributions are the same whenever these inputs are the same, whatever else differs
  (module code, runtime modules, other options).
\<close>

theorem chunkHash_contribution:
  "chunkHash h update c hash cg options =
     (if hasRuntime c then hash
      else update (update (update (update (update (update hash
             ''JsonpTemplatePlugin'') ''1'') (stringify h (JArr (getEntryInfo cg c))))
             (jsonpFunction options)) (hotUpdateFunction options)) (globalObject options))
   \<and> (hasRuntime c = hasRuntime c'
        \<and> stringify h (JArr (getEntryInfo cg c)) = stringify h (JArr (getEntryInfo cg' c'))
        \<and> jsonpFunction options = jsonpFunction options'
        \<and> hotUpdateFunction options = hotUpdateFunction options'
        \<and> globalObject options = globalObject options'
      \<longrightarrow> chunkHash h update c hash cg options = chunkHash h update c' hash cg' options')"
  by (simp add: chunkHash_def hash_inputs_def)

theorem chunkHash_contribution_witness:
  "chunkHash example_host stream_update (example_chunk False) ''h''
      \<lparr>getChunkRuntimeModulesInOrder = (\<lambda>c. []), getEntryInfo = (\<lambda>c. [])\<rparr> example_options
     = ''hJsonpTemplatePlugin1[]webpackJsonpwebpackHotUpdatewindow''
   \<and> chunkHash example_host stream_update (example_chunk False) ''h''
      \<lparr>getChunkRuntimeModulesInOrder = (\<lambda>c. []), getEntryInfo = (\<lambda>c. [])\<rparr> example_options
     = chunkHash example_host stream_update ((example_chunk True)\<lparr>chunk_ids := JNull\<rparr>) ''h''
      \<lparr>getChunkRuntimeModulesInOrder = (\<lambda>c. [OtherRuntimeModule ''m'']), getEntryInfo = (\<lambda>c. [])\<rparr>
      (example_options\<lparr>chunkLoadTimeout := 5\<rparr>)
   \<and> chunkHash example_host stream_update ((example_chunk False)\<lparr>hasRuntime := True\<rparr>) ''h''
      \<lparr>getChunkRuntimeModulesInOrder = (\<lambda>c. []), getEntryInfo = (\<lambda>c. [])\<rparr> example_options
     = ''h''"
  using chunkHash_contribution [of example_host stream_update "example_chunk False" "''h''"
      "\<lparr>getChunkRuntimeModulesInOrder = (\<lambda>c. []), getEntryInfo = (\<lambda>c. [])\<rparr>" example_options
      "(example_chunk True)\<lparr>chunk_ids := JNull\<rparr>"
      "\<lparr>getChunkRuntimeModulesInOrder = (\<lambda>c. [OtherRuntimeModule ''m'']), getEntryInfo = (\<lambda>c. [])\<rparr>"
      "example_options\<lparr>chunkLoadTimeout := 5\<rparr>"]
    chunkHash_contribution [of example_host stream_update "(example_chunk False)\<lparr>hasRuntime := True\<rparr>" "''h''"
      "\<lparr>getChunkRuntimeModulesInOrder = (\<lambda>c. []), getEntryInfo = (\<lambda>c. [])\<rparr>" example_options]
  by (simp add: ex_simps stream_update_def chunkHash_def hash_inputs_def)

lemma chunkHash_streaming:
  assumes "\<And>hash a b. update (update hash a) b = update hash (a @ b)"
      and "\<not> hasRuntime c"
  shows "chunkHash h update c hash cg options = update hash (concat (hash_inputs h c cg options))"
  using assms(2) by (simp add: chunkHash_def hash_inputs_def assms(1))

text \<open>
  Claim C8 as stated fails in the direction "the contribution changes if an input
  changes": the six strings are fed without separators, so moving a character from the
  end of the queue name to the start of the hot-update function name changes two
  inputs and leaves the stream the hash digests the same.
\<close>

theorem chunkHash_iff_counterexample:
  "jsonpFunction (example_options\<lparr>jsonpFunction := ''ab'', hotUpdateFunction := ''c''\<rparr>)
     \<noteq> jsonpFunction (example_options\<lparr>jsonpFunction := ''a'', hotUpdateFunction := ''bc''\<rparr>)
   \<and> chunkHash example_host stream_update (example_chunk False) []
        \<lparr>getChunkRuntimeModulesInOrder = (\<lambda>c. []), getEntryInfo = (\<lambda>c. [])\<rparr>
        (example_options\<lparr>jsonpFunction := ''ab'', hotUpdateFunction := ''c''\<rparr>)
     = chunkHash example_host stream_update (example_chunk False) []
        \<lparr>getChunkRuntimeModulesInOrder = (\<lambda>c. []), getEntryInfo = (\<lambda>c. [])\<rparr>
        (example_options\<lparr>jsonpFunction := ''a'', hotUpdateFunction := ''bc''\<rparr>)"
  by (simp add: chunkHash_def hash_inputs_def ex_simps stream_update_def)

section \<open>Properties of the hook registry\<close>

lemma getCompilationHooks_cached:
  "compilationHooksMap r c = Some hk \<Longrightarrow> getCompilationHooks (CompilationInstance c) r = (Inr hk, r)"
  by (simp add: getCompilationHooks_def)

lemma getCompilationHooks_preserves:
  assumes "allocated r"
  shows "allocated (snd (getCompilationHooks a r))"
    and "compilationHooksMap r c = Some hk \<Longrightarrow>
         compilationHooksMap (snd (getCompilationHooks a r)) c = Some hk"
    and "hk < next_ref r \<Longrightarrow> hooksObjects (snd (getCompilationHooks a r)) hk = hooksObjects r hk"
    and "hk < next_ref r \<Longrightarrow> waterfallHooks (snd (getCompilationHooks a r)) hk = waterfallHooks r hk"
    and "next_ref r \<le> next_ref (snd (getCompilationHooks a r))"
  using assms
  by (auto simp: getCompilationHooks_def new_SyncWaterfallHook_def allocated_def Let_def less_Suc_eq
           split: js_arg.splits option.splits)

lemma calls_preserve:
  assumes "allocated r" and "compilationHooksMap r c = Some hk"
  shows "allocated (calls as r) \<and> compilationHooksMap (calls as r) c = Some hk
         \<and> hooksObjects (calls as r) hk = hooksObjects r hk"
  using assms
proof (induction as arbitrary: r)
  case Nil
  then show ?case by simp
next
  case (Cons a as)
  have lt: "hk < next_ref r" using Cons.prems by (auto simp: allocated_def)
  have "allocated (snd (getCompilationHooks a r))"
    and "compilationHooksMap (snd (getCompilationHooks a r)) c = Some hk"
    using getCompilationHooks_preserves(1,2) Cons.prems by blast+
  from Cons.IH[OF this] show ?case
    using getCompilationHooks_preserves(3)[OF Cons.prems(1) lt, of a] by simp
qed

lemma allocated_empty: "allocated empty_registry"
  by (simp add: allocated_def empty_registry_def)

lemma allocated_calls: "allocated r \<Longrightarrow> allocated (calls as r)"
  by (induction as arbitrary: r) (simp_all add: getCompilationHooks_preserves(1))

lemma allocated_reachable: "allocated (calls as empty_registry)"
  by (rule allocated_calls [OF allocated_empty])

lemma getCompilationHooks_first:
  assumes "compilationHooksMap r c = None"
  defines "hk \<equiv> next_ref r + 4"
      and "hs \<equiv> \<lparr>jsonpScript = next_ref r, linkPreload = next_ref r + 1,
                   linkPrefetch = next_ref r + 2, mutateTag = next_ref r + 3\<rparr>"
      and "r' \<equiv> snd (getCompilationHooks (CompilationInstance c) r)"
  shows "getCompilationHooks (CompilationInstance c) r = (Inr hk, r')
           \<and> compilationHooksMap r' c = Some hk
           \<and> hooksObjects r' hk = Some hs
           \<and> next_ref r \<le> hk
           \<and> distinct [jsonpScript hs, linkPreload hs, linkPrefetch hs, mutateTag hs, hk]
           \<and> list_all (\<lambda>p. next_ref r \<le> p) [jsonpScript hs, linkPreload hs, linkPrefetch hs, mutateTag hs]
           \<and> map (waterfallHooks r') [jsonpScript hs, linkPreload hs, linkPrefetch hs, mutateTag hs]
              = [Some [''source'', ''chunk'', ''hash''], Some [''source'', ''chunk'', ''hash''],
                 Some [''source'', ''chunk'', ''hash''], Some [''tag'', ''attributes'']]"
  using assms(1) unfolding hk_def hs_def r'_def
  by (simp add: getCompilationHooks_def new_SyncWaterfallHook_def Let_def)

text \<open>
  Claim C9. A value that is not a \<^verbatim>\<open>Compilation\<close> makes the call fail with a type
  error and leaves the registry as it was. For a compilation without cached hooks the
  call allocates four waterfall pipelines, pairwise different and new, stores their
  references in a new hooks object, caches it for the compilation and returns it; every
  later call for the same compilation, whatever calls happen in between, returns the
  same hooks object, which still holds the same four pipelines.
\<close>

theorem getCompilationHooks_contract:
  assumes "allocated r"
  shows
  "getCompilationHooks OtherValue r
     = (Inl (TypeError ''The 'compilation' argument must be an instance of Compilation''), r)
   \<and> (compilationHooksMap r c = None \<longrightarrow>
        (\<exists>hk hs r'. getCompilationHooks (CompilationInstance c) r = (Inr hk, r')
           \<and> compilationHooksMap r' c = Some hk
           \<and> hooksObjects r' hk = Some hs
           \<and> next_ref r \<le> hk
           \<and> distinct [jsonpScript hs, linkPreload hs, linkPrefetch hs, mutateTag hs, hk]
           \<and> list_all (\<lambda>p. next_ref r \<le> p) [jsonpScript hs, linkPreload hs, linkPrefetch hs, mutateTag hs]
           \<and> map (waterfallHooks r') [jsonpScript hs, linkPreload hs, linkPrefetch hs, mutateTag hs]
              = [Some [''source'', ''chunk'', ''hash''], Some [''source'', ''chunk'', ''hash''],
                 Some [''source'', ''chunk'', ''hash''], Some [''tag'', ''attributes'']]
           \<and> getCompilationHooks (CompilationInstance c) (calls as r') = (Inr hk, calls as r')
           \<and> hooksObjects (calls as r') hk = Some hs))
   \<and> (compilationHooksMap r c = Some hk' \<longrightarrow>
        getCompilationHooks (CompilationInstance c) (calls as r) = (Inr hk', calls as r)
        \<and> hooksObjects (calls as r) hk' = hooksObjects r hk')"
proof (intro conjI impI)
  show "getCompilationHooks OtherValue r
     = (Inl (TypeError ''The 'compilation' argument must be an instance of Compilation''), r)"
    by (simp add: getCompilationHooks_def)
next
  assume none: "compilationHooksMap r c = None"
  define hk where "hk = next_ref r + 4"
  define hs where "hs = \<lparr>jsonpScript = next_ref r, linkPreload = next_ref r + 1,
                   linkPrefetch = next_ref r + 2, mutateTag = next_ref r + 3\<rparr>"
  define r' where "r' = snd (getCompilationHooks (CompilationInstance c) r)"
  have all: "getCompilationHooks (CompilationInstance c) r = (Inr hk, r')
           \<and> compilationHooksMap r' c = Some hk
           \<and> hooksObjects r' hk = Some hs
           \<and> next_ref r \<le> hk
           \<and> distinct [jsonpScript hs, linkPreload hs, linkPrefetch hs, mutateTag hs, hk]
           \<and> list_all (\<lambda>p. next_ref r \<le> p) [jsonpScript hs, linkPreload hs, linkPrefetch hs, mutateTag hs]
           \<and> map (waterfallHooks r') [jsonpScript hs, linkPreload hs, linkPrefetch hs, mutateTag hs]
              = [Some [''source'', ''chunk'', ''hash''], Some [''source'', ''chunk'', ''hash''],
                 Some [''source'', ''chunk'', ''hash''], Some [''tag'', ''attributes'']]"
    unfolding hk_def hs_def r'_def by (rule getCompilationHooks_first[OF none])
  then have first: "compilationHooksMap r' c = Some hk" "hooksObjects r' hk = Some hs"
    by simp_all
  have alloc: "allocated r'"
    unfolding r'_def using getCompilationHooks_preserves(1)[OF assms] .
  from calls_preserve[OF alloc first(1), of as]
  have later: "compilationHooksMap (calls as r') c = Some hk"
    "hooksObjects (calls as r') hk = Some hs"
    using first(2) by simp_all
  have "getCompilationHooks (CompilationInstance c) (calls as r') = (Inr hk, calls as r')"
    using later(1) by (rule getCompilationHooks_cached)
  with all later(2)
  have "getCompilationHooks (CompilationInstance c) r = (Inr hk, r')
           \<and> compilationHooksMap r' c = Some hk
           \<and> hooksObjects r' hk = Some hs
           \<and> next_ref r \<le> hk
           \<and> distinct [jsonpScript hs, linkPreload hs, linkPrefetch hs, mutateTag hs, hk]
           \<and> list_all (\<lambda>p. next_ref r \<le> p) [jsonpScript hs, linkPreload hs, linkPrefetch hs, mutateTag hs]
           \<and> map (waterfallHooks r') [jsonpScript hs, linkPreload hs, linkPrefetch hs, mutateTag hs]
              = [Some [''source'', ''chunk'', ''hash''], Some [''source'', ''chunk'', ''hash''],
                 Some [''source'', ''chunk'', ''hash''], Some [''tag'', ''attributes'']]
           \<and> getCompilationHooks (CompilationInstance c) (calls as r') = (Inr hk, calls as r')
           \<and> hooksObjects (calls as r') hk = Some hs"
    by simp
  then show "\<exists>hk hs r'. getCompilationHooks (CompilationInstance c) r = (Inr hk, r')
           \<and> compilationHooksMap r' c = Some hk
           \<and> hooksObjects r' hk = Some hs
           \<and> next_ref r \<le> hk
           \<and> distinct [jsonpScript hs, linkPreload hs, linkPrefetch hs, mutateTag hs, hk]
           \<and> list_all (\<lambda>p. next_ref r \<le> p) [jsonpScript hs, linkPreload hs, linkPrefetch hs, mutateTag hs]
           \<and> map (waterfallHooks r') [jsonpScript hs, linkPreload hs, linkPrefetch hs, mutateTag hs]
              = [Some [''source'', ''chunk'', ''hash''], Some [''source'', ''chunk'', ''hash''],
                 Some [''source'', ''chunk'', ''hash''], Some [''tag'', ''attributes'']]
           \<and> getCompilationHooks (CompilationInstance c) (calls as r') = (Inr hk, calls as r')
           \<and> hooksObjects (calls as r') hk = Some hs"
    by (intro exI)
next
  assume some: "compilationHooksMap r c = Some hk'"
  from calls_preserve[OF assms some, of as]
  show "getCompilationHooks (CompilationInstance c) (calls as r) = (Inr hk', calls as r)"
    by (simp add: getCompilationHooks_cached)
next
  assume some: "compilationHooksMap r c = Some hk'"
  from calls_preserve[OF assms some, of as]
  show "hooksObjects (calls as r) hk' = hooksObjects r hk'" by simp
qed

lemma first_call_value:
  "getCompilationHooks (CompilationInstance 5) empty_registry =
     (Inr 4, \<lparr>compilationHooksMap = (\<lambda>c. None)(5 \<mapsto> 4),
        hooksObjects = (\<lambda>a. None)(4 \<mapsto> \<lparr>jsonpScript = 0, linkPreload = 1, linkPrefetch = 2, mutateTag = 3\<rparr>),
        waterfallHooks = (\<lambda>a. None)(0 \<mapsto> [''source'', ''chunk'', ''hash''], 1 \<mapsto> [''source'', ''chunk'', ''hash''],
           2 \<mapsto> [''source'', ''chunk'', ''hash''], 3 \<mapsto> [''tag'', ''attributes'']),
        next_ref = 5\<rparr>)"
  by (simp add: getCompilationHooks_def new_SyncWaterfallHook_def empty_registry_def Let_def eval_nat_numeral)

theorem getCompilationHooks_contract_witness:
  "allocated empty_registry
   \<and> compilationHooksMap empty_registry 5 = None
   \<and> fst (getCompilationHooks OtherValue empty_registry)
       = Inl (TypeError ''The 'compilation' argument must be an instance of Compilation'')
   \<and> snd (getCompilationHooks OtherValue empty_registry) = empty_registry
   \<and> fst (getCompilationHooks (CompilationInstance 5) empty_registry) = Inr 4
   \<and> compilationHooksMap (calls [CompilationInstance 5] empty_registry) 5 = Some 4
   \<and> fst (getCompilationHooks (CompilationInstance 5)
        (calls [CompilationInstance 5, OtherValue, CompilationInstance 6] empty_registry)) = Inr 4"
proof -
  have a: "allocated empty_registry" by (rule allocated_empty)
  have n: "compilationHooksMap empty_registry 5 = None" by (simp add: empty_registry_def)
  have b: "allocated (calls [CompilationInstance 5] empty_registry)"
    by (simp add: first_call_value allocated_def)
  have s: "compilationHooksMap (calls [CompilationInstance 5] empty_registry) 5 = Some 4"
    by (simp add: first_call_value)
  show ?thesis
    using a n s getCompilationHooks_contract [OF a, of 5 "[OtherValue, CompilationInstance 6]" 4]
      getCompilationHooks_contract [OF b, of 5 "[OtherValue, CompilationInstance 6]" 4]
    by (simp add: first_call_value)
qed

section \<open>Properties of the runtime-requirement propagator\<close>

lemma set_add_fields [simp]:
  "onceForChunkSet (set_add s g st) = onceForChunkSet st"
  "runtimeModules (set_add s g st) = runtimeModules st"
  "set (sets (set_add s g st) s) = insert g (set (sets st s))"
  "s' \<noteq> s \<Longrightarrow> sets (set_add s g st) s' = sets st s'"
  by (auto simp: set_add_def)

lemma set_add_present: "g \<in> set (sets st s) \<Longrightarrow> set_add s g st = st"
  by (simp add: set_add_def)

lemma set_add_mono: "x \<in> set (sets st s) \<Longrightarrow> x \<in> set (sets (set_add s' g st) s)"
  by (auto simp: set_add_def)

lemma handler_marked: "c \<in> onceForChunkSet st \<Longrightarrow> handler c s st = st"
  by (simp add: handler_def)

lemma handler_unmarked:
  assumes "c \<notin> onceForChunkSet st"
  shows "onceForChunkSet (handler c s st) = insert c (onceForChunkSet st)"
    and "set (sets (handler c s st) s) = set (sets st s) \<union> {moduleFactoriesAddOnly, hasOwnProperty}"
    and "s' \<noteq> s \<Longrightarrow> sets (handler c s st) s' = sets st s'"
    and "runtimeModules (handler c s st) =
           (runtimeModules st)(c := runtimeModules st c @ [JsonpChunkLoadingRuntimeModule s])"
  using assms by (auto simp: handler_def addRuntimeModule_def Let_def set_add_def)

lemma handler_once: "onceForChunkSet (handler c s st) = insert c (onceForChunkSet st)"
  by (cases "c \<in> onceForChunkSet st") (auto simp: handler_marked handler_unmarked)

lemma handler_mono: "x \<in> set (sets st s) \<Longrightarrow> x \<in> set (sets (handler c s' st) s)"
  by (auto simp: handler_def addRuntimeModule_def Let_def set_add_def)

lemma fire_trigger:
  "is_trigger g \<Longrightarrow>
   runtimeRequirementInTree h g c s st = fold (set_add s) (specific_of g) (handler c s st)"
  unfolding is_trigger_def runtimeRequirementInTree_def run_listeners_def
  by (elim insertE emptyE) simp_all

lemma fire_other: "\<not> is_trigger g \<Longrightarrow> runtimeRequirementInTree h g c s st = st"
  by (cases g) (simp_all add: is_trigger_def runtimeRequirementInTree_def run_listeners_def)

lemma fold_set_add_fields [simp]:
  "onceForChunkSet (fold (set_add s) gs st) = onceForChunkSet st"
  "runtimeModules (fold (set_add s) gs st) = runtimeModules st"
  "set (sets (fold (set_add s) gs st) s) = set (sets st s) \<union> set gs"
  by (induction gs arbitrary: st) auto

lemma fire_fields:
  "onceForChunkSet (runtimeRequirementInTree h g c s st)
     = (if is_trigger g then insert c (onceForChunkSet st) else onceForChunkSet st)"
  "runtimeModules (runtimeRequirementInTree h g c s st)
     = (if is_trigger g \<and> c \<notin> onceForChunkSet st
        then (runtimeModules st)(c := runtimeModules st c @ [JsonpChunkLoadingRuntimeModule s])
        else runtimeModules st)"
proof -
  show "onceForChunkSet (runtimeRequirementInTree h g c s st)
     = (if is_trigger g then insert c (onceForChunkSet st) else onceForChunkSet st)"
    by (cases "is_trigger g") (simp_all add: fire_trigger fire_other handler_once)
  show "runtimeModules (runtimeRequirementInTree h g c s st)
     = (if is_trigger g \<and> c \<notin> onceForChunkSet st
        then (runtimeModules st)(c := runtimeModules st c @ [JsonpChunkLoadingRuntimeModule s])
        else runtimeModules st)"
  proof (cases "is_trigger g")
    case True
    then show ?thesis
      by (cases "c \<in> onceForChunkSet st")
         (simp_all add: fire_trigger handler_marked handler_unmarked(4))
  next
    case False
    then show ?thesis by (simp add: fire_other)
  qed
qed

lemma tree_fields:
  "onceForChunkSet (additionalTreeRuntimeRequirements h c s st)
     = (if needEntryDeferringCode h c then insert c (onceForChunkSet st) else onceForChunkSet st)"
  "runtimeModules (additionalTreeRuntimeRequirements h c s st)
     = (if needEntryDeferringCode h c \<and> c \<notin> onceForChunkSet st
        then (runtimeModules st)(c := runtimeModules st c @ [JsonpChunkLoadingRuntimeModule s])
        else runtimeModules st)"
  "set (sets (additionalTreeRuntimeRequirements h c s st) s)
     = set (sets st s)
       \<union> (if needEntryDeferringCode h c
          then {startup, startupNoDefault, require}
               \<union> (if c \<in> onceForChunkSet st then {} else {moduleFactoriesAddOnly, hasOwnProperty})
          else {})"
proof -
  show "onceForChunkSet (additionalTreeRuntimeRequirements h c s st)
     = (if needEntryDeferringCode h c then insert c (onceForChunkSet st) else onceForChunkSet st)"
    by (simp add: additionalTreeRuntimeRequirements_def run_listeners_def Let_def handler_once)
  show "runtimeModules (additionalTreeRuntimeRequirements h c s st)
     = (if needEntryDeferringCode h c \<and> c \<notin> onceForChunkSet st
        then (runtimeModules st)(c := runtimeModules st c @ [JsonpChunkLoadingRuntimeModule s])
        else runtimeModules st)"
    by (cases "c \<in> onceForChunkSet st")
       (simp_all add: additionalTreeRuntimeRequirements_def run_listeners_def Let_def
          handler_marked handler_unmarked(4))
  show "set (sets (additionalTreeRuntimeRequirements h c s st) s)
     = set (sets st s)
       \<union> (if needEntryDeferringCode h c
          then {startup, startupNoDefault, require}
               \<union> (if c \<in> onceForChunkSet st then {} else {moduleFactoriesAddOnly, hasOwnProperty})
          else {})"
    by (cases "c \<in> onceForChunkSet st")
       (auto simp: additionalTreeRuntimeRequirements_def run_listeners_def Let_def
          handler_marked handler_unmarked(2))
qed

lemma fire_fields_for:
  "onceForChunkSet (fire h f st)
     = (if invokes_handler h (firing_chunk f) f then insert (firing_chunk f) (onceForChunkSet st)
        else onceForChunkSet st)"
  "runtimeModules (fire h f st)
     = (if invokes_handler h (firing_chunk f) f \<and> firing_chunk f \<notin> onceForChunkSet st
        then (runtimeModules st)(firing_chunk f :=
               runtimeModules st (firing_chunk f) @ [JsonpChunkLoadingRuntimeModule (firing_set f)])
        else runtimeModules st)"
  by (cases f; simp add: fire_fields tree_fields)+

lemma invokes_handler_chunk: "invokes_handler h c f \<Longrightarrow> firing_chunk f = c"
  by (cases f) simp_all

lemma fire_all_modules:
  "runtimeModules (fire_all h fs st) c =
     runtimeModules st c @
       (if c \<in> onceForChunkSet st then []
        else case first_invocation h c fs of None \<Rightarrow> []
             | Some f \<Rightarrow> [JsonpChunkLoadingRuntimeModule (firing_set f)])"
proof (induction fs arbitrary: st)
  case Nil
  then show ?case by (simp add: first_invocation_def)
next
  case (Cons f fs)
  let ?st' = "fire h f st"
  have step: "runtimeModules (fire_all h (f # fs) st) c =
     runtimeModules ?st' c @
       (if c \<in> onceForChunkSet ?st' then []
        else case first_invocation h c fs of None \<Rightarrow> []
             | Some f \<Rightarrow> [JsonpChunkLoadingRuntimeModule (firing_set f)])"
    unfolding fire_all.simps Cons.IH ..
  show ?case
  proof (cases "invokes_handler h c f")
    case True
    then have c: "firing_chunk f = c" by (rule invokes_handler_chunk)
    from True show ?thesis
      unfolding step
      by (cases "c \<in> onceForChunkSet st") (simp_all add: fire_fields_for c first_invocation_def)
  next
    case False
    then have "first_invocation h c (f # fs) = first_invocation h c fs"
      by (simp add: first_invocation_def)
    moreover from False have "runtimeModules ?st' c = runtimeModules st c"
      and "c \<in> onceForChunkSet ?st' \<longleftrightarrow> c \<in> onceForChunkSet st"
      by (cases f; auto simp: fire_fields tree_fields)+
    ultimately show ?thesis unfolding step by simp
  qed
qed

lemma fire_all_once:
  "c \<in> onceForChunkSet (fire_all h fs st)
     \<longleftrightarrow> c \<in> onceForChunkSet st \<or> first_invocation h c fs \<noteq> None"
proof (induction fs arbitrary: st)
  case Nil
  then show ?case by (simp add: first_invocation_def)
next
  case (Cons f fs)
  show ?case
    unfolding fire_all.simps Cons.IH
    by (cases f) (auto simp: fire_fields tree_fields first_invocation_def)
qed

lemma run_listener_mono:
  "x \<in> set (sets st s) \<Longrightarrow> x \<in> set (sets (run_listener h l c s' st) s)"
  by (cases l) (auto simp: set_add_mono handler_mono Let_def)

lemma run_listeners_mono:
  "x \<in> set (sets st s) \<Longrightarrow> x \<in> set (sets (run_listeners h ls c s' st) s)"
  unfolding run_listeners_def
  by (induction ls arbitrary: st) (auto simp: run_listener_mono)

lemma fire_mono: "x \<in> set (sets st s) \<Longrightarrow> x \<in> set (sets (fire h f st) s)"
  by (cases f)
     (auto simp: runtimeRequirementInTree_def additionalTreeRuntimeRequirements_def
        run_listeners_mono)

lemma fire_all_mono: "x \<in> set (sets st s) \<Longrightarrow> x \<in> set (sets (fire_all h fs st) s)"
  by (induction fs arbitrary: st) (auto simp: fire_mono)

lemma first_invocation_adds_baseline:
  assumes "invokes_handler h c f" and "c \<notin> onceForChunkSet st"
  shows "{moduleFactoriesAddOnly, hasOwnProperty} \<subseteq> set (sets (fire h f st) (firing_set f))"
proof (cases f)
  case (InTree g c' s)
  with assms show ?thesis
    by (auto simp: fire_trigger handler_unmarked(2))
next
  case (AdditionalTree c' s)
  with assms show ?thesis
    by (auto simp: tree_fields(3))
qed

lemma fire_all_baseline:
  assumes "c \<notin> onceForChunkSet st" and "first_invocation h c fs = Some f"
  shows "{moduleFactoriesAddOnly, hasOwnProperty} \<subseteq> set (sets (fire_all h fs st) (firing_set f))"
  using assms
proof (induction fs arbitrary: st)
  case Nil
  then show ?case by (simp add: first_invocation_def)
next
  case (Cons f' fs)
  show ?case
  proof (cases "invokes_handler h c f'")
    case True
    with Cons.prems(2) have f: "f' = f" by (simp add: first_invocation_def)
    have "{moduleFactoriesAddOnly, hasOwnProperty} \<subseteq> set (sets (fire h f st) (firing_set f))"
      using True Cons.prems(1) unfolding f by (rule first_invocation_adds_baseline)
    then show ?thesis
      unfolding f by (auto intro: fire_all_mono)
  next
    case False
    with Cons.prems(2) have later: "first_invocation h c fs = Some f"
      by (simp add: first_invocation_def)
    from False Cons.prems(1) have "c \<notin> onceForChunkSet (fire h f' st)"
      by (cases f') (auto simp: fire_fields tree_fields)
    from Cons.IH[OF this later] show ?thesis by simp
  qed
qed

text \<open>
  Claim C3, as far as it holds. The shared handler runs when one of the three triggers
  fires and when the tree-wide listener runs on a chunk that needs deferred-entry code.
  Its first invocation for a chunk (the chunk is not yet marked) adds exactly the two
  baseline capabilities \<open>moduleFactoriesAddOnly\<close> and \<open>hasOwnProperty\<close> to the set it
  is given, leaves every other set as it was, attaches one chunk-loading runtime module
  to the chunk and marks the chunk; the firing adds besides only what the trigger's own
  listener adds, the tree-wide listener only the three startup capabilities. Every
  later invocation for the chunk changes nothing: a later firing adds only the
  trigger's own capabilities and attaches nothing. So after any sequence of firings of
  the three triggers and of the tree-wide listener in a fresh compilation, a chunk is
  marked and carries exactly one chunk-loading runtime module, built from the set of
  the first firing that invoked the handler for it, and that set holds the two baseline
  capabilities, if there was such a firing; the chunk carries no such module otherwise.
\<close>

theorem first_occurrence_per_chunk:
  "(c \<notin> onceForChunkSet st \<longrightarrow>
      set (sets (handler c s st) s) = set (sets st s) \<union> {moduleFactoriesAddOnly, hasOwnProperty}
      \<and> (\<forall>s'. s' \<noteq> s \<longrightarrow> sets (handler c s st) s' = sets st s')
      \<and> runtimeModules (handler c s st) c = runtimeModules st c @ [JsonpChunkLoadingRuntimeModule s]
      \<and> (is_trigger g \<longrightarrow>
           set (sets (runtimeRequirementInTree h g c s st) s)
             = set (sets st s) \<union> {moduleFactoriesAddOnly, hasOwnProperty} \<union> set (specific_of g)
           \<and> runtimeModules (runtimeRequirementInTree h g c s st) c
             = runtimeModules st c @ [JsonpChunkLoadingRuntimeModule s])
      \<and> (needEntryDeferringCode h c \<longrightarrow>
           set (sets (additionalTreeRuntimeRequirements h c s st) s)
             = set (sets st s) \<union> {moduleFactoriesAddOnly, hasOwnProperty}
               \<union> {startup, startupNoDefault, require}
           \<and> runtimeModules (additionalTreeRuntimeRequirements h c s st) c
             = runtimeModules st c @ [JsonpChunkLoadingRuntimeModule s]))
   \<and> (c \<in> onceForChunkSet st \<longrightarrow>
      handler c s st = st
      \<and> (is_trigger g \<longrightarrow>
           set (sets (runtimeRequirementInTree h g c s st) s) = set (sets st s) \<union> set (specific_of g)
           \<and> runtimeModules (runtimeRequirementInTree h g c s st) = runtimeModules st)
      \<and> (needEntryDeferringCode h c \<longrightarrow>
           set (sets (additionalTreeRuntimeRequirements h c s st) s)
             = set (sets st s) \<union> {startup, startupNoDefault, require})
      \<and> runtimeModules (additionalTreeRuntimeRequirements h c s st) = runtimeModules st)
   \<and> (is_trigger g \<longrightarrow> c \<in> onceForChunkSet (runtimeRequirementInTree h g c s st))
   \<and> (needEntryDeferringCode h c \<longrightarrow> c \<in> onceForChunkSet (additionalTreeRuntimeRequirements h c s st))
   \<and> (\<not> needEntryDeferringCode h c \<longrightarrow> additionalTreeRuntimeRequirements h c s st = st)
   \<and> (c \<in> onceForChunkSet (fire_all h fs fresh_compilation) \<longleftrightarrow> first_invocation h c fs \<noteq> None)
   \<and> runtimeModules (fire_all h fs fresh_compilation) c =
        (case first_invocation h c fs of None \<Rightarrow> []
         | Some f \<Rightarrow> [JsonpChunkLoadingRuntimeModule (firing_set f)])
   \<and> (case first_invocation h c fs of None \<Rightarrow> True
       | Some f \<Rightarrow> {moduleFactoriesAddOnly, hasOwnProperty}
                    \<subseteq> set (sets (fire_all h fs fresh_compilation) (firing_set f)))"
proof -
  have fresh: "runtimeModules fresh_compilation c = []" "c \<notin> onceForChunkSet fresh_compilation"
    by (simp_all add: fresh_compilation_def)
  have seq: "(c \<in> onceForChunkSet (fire_all h fs fresh_compilation) \<longleftrightarrow> first_invocation h c fs \<noteq> None)
   \<and> runtimeModules (fire_all h fs fresh_compilation) c =
        (case first_invocation h c fs of None \<Rightarrow> []
         | Some f \<Rightarrow> [JsonpChunkLoadingRuntimeModule (firing_set f)])"
    unfolding fire_all_modules fire_all_once by (simp add: fresh)
  have no_defer: "\<not> needEntryDeferringCode h c \<longrightarrow> additionalTreeRuntimeRequirements h c s st = st"
    by (simp add: additionalTreeRuntimeRequirements_def run_listeners_def Let_def)
  have unmarked: "c \<notin> onceForChunkSet st \<longrightarrow>
      set (sets (handler c s st) s) = set (sets st s) \<union> {moduleFactoriesAddOnly, hasOwnProperty}
      \<and> (\<forall>s'. s' \<noteq> s \<longrightarrow> sets (handler c s st) s' = sets st s')
      \<and> runtimeModules (handler c s st) c = runtimeModules st c @ [JsonpChunkLoadingRuntimeModule s]
      \<and> (is_trigger g \<longrightarrow>
           set (sets (runtimeRequirementInTree h g c s st) s)
             = set (sets st s) \<union> {moduleFactoriesAddOnly, hasOwnProperty} \<union> set (specific_of g)
           \<and> runtimeModules (runtimeRequirementInTree h g c s st) c
             = runtimeModules st c @ [JsonpChunkLoadingRuntimeModule s])
      \<and> (needEntryDeferringCode h c \<longrightarrow>
           set (sets (additionalTreeRuntimeRequirements h c s st) s)
             = set (sets st s) \<union> {moduleFactoriesAddOnly, hasOwnProperty}
               \<union> {startup, startupNoDefault, require}
           \<and> runtimeModules (additionalTreeRuntimeRequirements h c s st) c
             = runtimeModules st c @ [JsonpChunkLoadingRuntimeModule s])"
    by (auto simp: fire_fields handler_unmarked fire_trigger tree_fields)
  have marked: "c \<in> onceForChunkSet st \<longrightarrow>
      handler c s st = st
      \<and> (is_trigger g \<longrightarrow>
           set (sets (runtimeRequirementInTree h g c s st) s) = set (sets st s) \<union> set (specific_of g)
           \<and> runtimeModules (runtimeRequirementInTree h g c s st) = runtimeModules st)
      \<and> (needEntryDeferringCode h c \<longrightarrow>
           set (sets (additionalTreeRuntimeRequirements h c s st) s)
             = set (sets st s) \<union> {startup, startupNoDefault, require})
      \<and> runtimeModules (additionalTreeRuntimeRequirements h c s st) = runtimeModules st"
    by (auto simp: fire_fields handler_marked fire_trigger tree_fields)
  have marks: "(is_trigger g \<longrightarrow> c \<in> onceForChunkSet (runtimeRequirementInTree h g c s st))
   \<and> (needEntryDeferringCode h c \<longrightarrow> c \<in> onceForChunkSet (additionalTreeRuntimeRequirements h c s st))"
    by (simp add: fire_fields tree_fields)
  have baseline: "case first_invocation h c fs of None \<Rightarrow> True
       | Some f \<Rightarrow> {moduleFactoriesAddOnly, hasOwnProperty}
                    \<subseteq> set (sets (fire_all h fs fresh_compilation) (firing_set f))"
    using fire_all_baseline [OF fresh(2), of h fs] by (simp split: option.split)
  from unmarked marked marks no_defer seq baseline show ?thesis by blast
qed

lemmas propagator_defs = fresh_compilation_def is_trigger_def runtimeRequirementInTree_def
  additionalTreeRuntimeRequirements_def run_listeners_def handler_def set_add_def
  addRuntimeModule_def Let_def first_invocation_def example_host_def

theorem first_occurrence_per_chunk_witness:
  "0 \<notin> onceForChunkSet fresh_compilation
   \<and> is_trigger ensureChunkHandlers
   \<and> sets (runtimeRequirementInTree example_host ensureChunkHandlers 0 0 fresh_compilation) 0
       = [moduleFactoriesAddOnly, hasOwnProperty, publicPath, getChunkScriptFilename]
   \<and> runtimeModules (runtimeRequirementInTree example_host ensureChunkHandlers 0 0 fresh_compilation) 0
       = [JsonpChunkLoadingRuntimeModule 0]
   \<and> 0 \<in> onceForChunkSet (runtimeRequirementInTree example_host ensureChunkHandlers 0 0 fresh_compilation)
   \<and> sets (runtimeRequirementInTree example_host hmrDownloadManifest 0 0
          (runtimeRequirementInTree example_host ensureChunkHandlers 0 0 fresh_compilation)) 0
       = [moduleFactoriesAddOnly, hasOwnProperty, publicPath, getChunkScriptFilename,
          getUpdateManifestFilename]
   \<and> needEntryDeferringCode example_host 1
   \<and> 1 \<notin> onceForChunkSet fresh_compilation
   \<and> sets (additionalTreeRuntimeRequirements example_host 1 3 fresh_compilation) 3
       = [startup, startupNoDefault, moduleFactoriesAddOnly, hasOwnProperty, require]
   \<and> \<not> needEntryDeferringCode example_host 0
   \<and> runtimeModules (fire_all example_host
          [InTree ensureChunkHandlers 0 0, AdditionalTree 0 0, InTree hmrDownloadManifest 0 0,
           AdditionalTree 1 3, InTree ensureChunkHandlers 1 3]
          fresh_compilation) 0
       = [JsonpChunkLoadingRuntimeModule 0]
   \<and> runtimeModules (fire_all example_host
          [InTree ensureChunkHandlers 0 0, AdditionalTree 0 0, InTree hmrDownloadManifest 0 0,
           AdditionalTree 1 3, InTree ensureChunkHandlers 1 3]
          fresh_compilation) 1
       = [JsonpChunkLoadingRuntimeModule 3]"
  using first_occurrence_per_chunk [of 0 fresh_compilation 0 ensureChunkHandlers example_host
          "[InTree ensureChunkHandlers 0 0, AdditionalTree 0 0, InTree hmrDownloadManifest 0 0,
           AdditionalTree 1 3, InTree ensureChunkHandlers 1 3]"]
        first_occurrence_per_chunk [of 0
          "runtimeRequirementInTree example_host ensureChunkHandlers 0 0 fresh_compilation" 0
          hmrDownloadManifest example_host "[]"]
        first_occurrence_per_chunk [of 1 fresh_compilation 3 ensureChunkHandlers example_host
          "[InTree ensureChunkHandlers 0 0, AdditionalTree 0 0, InTree hmrDownloadManifest 0 0,
           AdditionalTree 1 3, InTree ensureChunkHandlers 1 3]"]
  by (simp add: propagator_defs)

text \<open>
  Claim C3 as stated fails: the first firing of a trigger on a chunk is not always the
  first invocation of the handler. On a chunk that needs deferred-entry code the
  tree-wide listener invokes the handler; when it has run, the first firing of a
  trigger on that chunk attaches nothing and adds only the trigger's own capabilities,
  to the same set or to another one.
\<close>

theorem first_trigger_firing_counterexample:
  "needEntryDeferringCode example_host 1
   \<and> is_trigger ensureChunkHandlers
   \<and> runtimeModules (fire_all example_host [AdditionalTree 1 0] fresh_compilation) 1
       = [JsonpChunkLoadingRuntimeModule 0]
   \<and> sets (fire_all example_host [AdditionalTree 1 0] fresh_compilation) 0
       = [startup, startupNoDefault, moduleFactoriesAddOnly, hasOwnProperty, require]
   \<and> runtimeModules
        (fire_all example_host [AdditionalTree 1 0, InTree ensureChunkHandlers 1 0] fresh_compilation) 1
       = [JsonpChunkLoadingRuntimeModule 0]
   \<and> sets (fire_all example_host [AdditionalTree 1 0, InTree ensureChunkHandlers 1 0] fresh_compilation) 0
       = [startup, startupNoDefault, moduleFactoriesAddOnly, hasOwnProperty, require,
          publicPath, getChunkScriptFilename]
   \<and> runtimeModules
        (fire_all example_host [AdditionalTree 1 0, InTree ensureChunkHandlers 1 2] fresh_compilation) 1
       = [JsonpChunkLoadingRuntimeModule 0]
   \<and> sets (fire_all example_host [AdditionalTree 1 0, InTree ensureChunkHandlers 1 2] fresh_compilation) 2
       = [publicPath, getChunkScriptFilename]"
  by (simp add: propagator_defs)

lemma handler_caps:
  "set (sets (handler c s st) s)
     = set (sets st s) \<union> (if c \<in> onceForChunkSet st then {} else {moduleFactoriesAddOnly, hasOwnProperty})"
  by (cases "c \<in> onceForChunkSet st") (simp_all add: handler_marked handler_unmarked)

lemma run_listener_caps:
  "set (sets (run_listener h l c s st) s) = set (sets st s) \<union> adds h l c st"
  by (cases l) (auto simp: handler_caps Let_def)

lemma run_listener_once:
  "onceForChunkSet (run_listener h l c s st) =
     (if l = Shared \<or> (l = TreeWide \<and> needEntryDeferringCode h c)
      then insert c (onceForChunkSet st) else onceForChunkSet st)"
  by (cases l) (auto simp: handler_once Let_def)

lemma adds_after:
  "adds h l c st \<union> adds h l' c (run_listener h l c s st) = adds h l c st \<union> adds h l' c st"
  by (cases l; cases l') (auto simp: handler_once)

lemma run_listeners_caps:
  "set (sets (run_listeners h ls c s st) s) = set (sets st s) \<union> (\<Union>l \<in> set ls. adds h l c st)"
proof (induction ls arbitrary: st)
  case Nil
  then show ?case by (simp add: run_listeners_def)
next
  case (Cons l ls)
  have "set (sets (run_listeners h (l # ls) c s st) s)
        = set (sets (run_listener h l c s st) s) \<union> (\<Union>l' \<in> set ls. adds h l' c (run_listener h l c s st))"
    using Cons.IH[of "run_listener h l c s st"] by (simp add: run_listeners_def)
  also have "\<dots> = set (sets st s) \<union> (\<Union>l' \<in> set ls. adds h l c st \<union> adds h l' c (run_listener h l c s st)) \<union> adds h l c st"
    by (auto simp: run_listener_caps)
  also have "\<dots> = set (sets st s) \<union> (\<Union>l' \<in> set ls. adds h l c st \<union> adds h l' c st) \<union> adds h l c st"
    by (simp only: adds_after)
  also have "\<dots> = set (sets st s) \<union> (\<Union>l' \<in> set (l # ls). adds h l' c st)"
    by auto
  finally show ?case .
qed

lemma satisfied_stable: "satisfied h l c s st \<Longrightarrow> run_listener h l c s st = st"
  by (cases l) (auto simp: handler_marked set_add_present Let_def)

lemma satisfied_after: "satisfied h l c s (run_listener h l c s st)"
  by (cases l) (auto simp: handler_once handler_mono Let_def)

lemma satisfied_mono: "satisfied h l c s st \<Longrightarrow> satisfied h l c s (run_listener h l' c s st)"
  by (cases l; cases l') (auto simp: handler_once handler_mono set_add_mono Let_def)

lemma satisfied_run_mono:
  "satisfied h l c s st \<Longrightarrow> satisfied h l c s (run_listeners h ls c s st)"
  unfolding run_listeners_def
  by (induction ls arbitrary: st) (auto simp: satisfied_mono)

lemma satisfied_after_run:
  "l \<in> set ls \<Longrightarrow> satisfied h l c s (run_listeners h ls c s st)"
proof (induction ls arbitrary: st)
  case Nil
  then show ?case by simp
next
  case (Cons a ls)
  show ?case
  proof (cases "l = a")
    case True
    have "satisfied h l c s (run_listeners h ls c s (run_listener h a c s st))"
      unfolding True by (rule satisfied_run_mono[OF satisfied_after])
    then show ?thesis by (simp add: run_listeners_def)
  next
    case False
    with Cons.prems have "l \<in> set ls" by simp
    from Cons.IH[OF this, of "run_listener h a c s st"]
    show ?thesis by (simp add: run_listeners_def)
  qed
qed

lemma all_satisfied_stable:
  "\<forall>l \<in> set ls. satisfied h l c s st \<Longrightarrow> run_listeners h ls c s st = st"
  unfolding run_listeners_def
  by (induction ls) (auto simp: satisfied_stable)

text \<open>
  Claim C4. For every chunk, set and state, running the same listeners in any order
  (the shared handler, the three trigger-specific listeners, the tree-wide listener)
  gives the same capability set: the initial members and what each listener adds.
  Running listeners of the pass a second time, in any order, on the resulting state
  changes nothing.
\<close>

theorem propagation_order_independent_idempotent:
  "(set ls1 = set ls2 \<longrightarrow>
      set (sets (run_listeners h ls1 c s st) s) = set (sets (run_listeners h ls2 c s st) s))
   \<and> set (sets (run_listeners h ls c s st) s) = set (sets st s) \<union> (\<Union>l \<in> set ls. adds h l c st)
   \<and> (set ls' \<subseteq> set ls \<longrightarrow>
        run_listeners h ls' c s (run_listeners h ls c s st) = run_listeners h ls c s st)"
proof (intro conjI impI)
  assume "set ls1 = set ls2"
  then show "set (sets (run_listeners h ls1 c s st) s) = set (sets (run_listeners h ls2 c s st) s)"
    by (simp add: run_listeners_caps)
next
  show "set (sets (run_listeners h ls c s st) s) = set (sets st s) \<union> (\<Union>l \<in> set ls. adds h l c st)"
    by (rule run_listeners_caps)
next
  assume "set ls' \<subseteq> set ls"
  then have "\<forall>l \<in> set ls'. satisfied h l c s (run_listeners h ls c s st)"
    by (auto intro: satisfied_after_run)
  then show "run_listeners h ls' c s (run_listeners h ls c s st) = run_listeners h ls c s st"
    by (rule all_satisfied_stable)
qed

theorem propagation_order_independent_idempotent_witness:
  "set [Shared, EnsureSpecific, TreeWide] = set [TreeWide, EnsureSpecific, Shared]
   \<and> set [EnsureSpecific, Shared] \<subseteq> set [Shared, EnsureSpecific, TreeWide]
   \<and> sets (run_listeners example_host [Shared, EnsureSpecific, TreeWide] 1 0 fresh_compilation) 0
       = [moduleFactoriesAddOnly, hasOwnProperty, publicPath, getChunkScriptFilename,
          startup, startupNoDefault, require]
   \<and> sets (run_listeners example_host [TreeWide, EnsureSpecific, Shared] 1 0 fresh_compilation) 0
       = [startup, startupNoDefault, moduleFactoriesAddOnly, hasOwnProperty, require,
          publicPath, getChunkScriptFilename]
   \<and> set (sets (run_listeners example_host [Shared, EnsureSpecific, TreeWide] 1 0 fresh_compilation) 0)
       = set (sets (run_listeners example_host [TreeWide, EnsureSpecific, Shared] 1 0 fresh_compilation) 0)
   \<and> run_listeners example_host [EnsureSpecific, Shared] 1 0
         (run_listeners example_host [Shared, EnsureSpecific, TreeWide] 1 0 fresh_compilation)
       = run_listeners example_host [Shared, EnsureSpecific, TreeWide] 1 0 fresh_compilation"
proof -
  have a: "set [Shared, EnsureSpecific, TreeWide] = set [TreeWide, EnsureSpecific, Shared]"
    and b: "set [EnsureSpecific, Shared] \<subseteq> set [Shared, EnsureSpecific, TreeWide]"
    by auto
  have l1: "sets (run_listeners example_host [Shared, EnsureSpecific, TreeWide] 1 0 fresh_compilation) 0
       = [moduleFactoriesAddOnly, hasOwnProperty, publicPath, getChunkScriptFilename,
          startup, startupNoDefault, require]"
    by (simp add: run_listeners_def handler_def set_add_def addRuntimeModule_def Let_def
          fresh_compilation_def example_host_def)
  have l2: "sets (run_listeners example_host [TreeWide, EnsureSpecific, Shared] 1 0 fresh_compilation) 0
       = [startup, startupNoDefault, moduleFactoriesAddOnly, hasOwnProperty, require,
          publicPath, getChunkScriptFilename]"
    by (simp add: run_listeners_def handler_def set_add_def addRuntimeModule_def Let_def
          fresh_compilation_def example_host_def)
  from propagation_order_independent_idempotent
         [of "[Shared, EnsureSpecific, TreeWide]" "[TreeWide, EnsureSpecific, Shared]"
             example_host 1 0 fresh_compilation "[Shared, EnsureSpecific, TreeWide]"
             "[EnsureSpecific, Shared]"]
  have "set (sets (run_listeners example_host [Shared, EnsureSpecific, TreeWide] 1 0 fresh_compilation) 0)
       = set (sets (run_listeners example_host [TreeWide, EnsureSpecific, Shared] 1 0 fresh_compilation) 0)"
    and "run_listeners example_host [EnsureSpecific, Shared] 1 0
         (run_listeners example_host [Shared, EnsureSpecific, TreeWide] 1 0 fresh_compilation)
       = run_listeners example_host [Shared, EnsureSpecific, TreeWide] 1 0 fresh_compilation"
    using a b by blast+
  with a b l1 l2 show ?thesis by (intro conjI)
qed

section \<open>Properties of the generated script-loading state machine\<close>

lemma completion_handler_completed: "completed (completion_handler env event st)"
  by (simp add: completed_def completion_handler_def Let_def)

lemma completed_stable: "completed st \<Longrightarrow> occur env x st = st"
  by (cases x) (simp_all add: completed_def)

lemma completed_stable_all: "completed st \<Longrightarrow> occur_all env xs st = st"
  by (induction xs) (simp_all add: completed_stable)

lemma occur_cases:
  "occur env x st = st \<or> (\<exists>event. occur env x st = completion_handler env event st)"
proof (cases x)
  case (SuccessEvent ev)
  then show ?thesis
    by (cases "script_onload st"; cases "the (script_onload st)") auto
next
  case (FailureEvent ev)
  then show ?thesis
    by (cases "script_onerror st"; cases "the (script_onerror st)") auto
next
  case TimerExpires
  then show ?thesis
    by (cases "onScriptComplete st") auto
qed

lemma occur_all_cases:
  "occur_all env xs st = st \<or> (\<exists>event. occur_all env xs st = completion_handler env event st)"
proof (induction xs arbitrary: st)
  case Nil
  then show ?case by simp
next
  case (Cons x xs)
  from occur_cases[of env x st] show ?case
  proof
    assume "occur env x st = st"
    then show ?thesis using Cons.IH[of st] by simp
  next
    assume "\<exists>event. occur env x st = completion_handler env event st"
    then obtain event where e: "occur env x st = completion_handler env event st" ..
    have "occur_all env xs (completion_handler env event st) = completion_handler env event st"
      by (rule completed_stable_all[OF completion_handler_completed])
    with e show ?thesis by auto
  qed
qed

lemma completion_handler_counts:
  "loadingEnded_calls (completion_handler env event st) = Suc (loadingEnded_calls st)"
  "length (reportError_calls (completion_handler env event st))
     = length (reportError_calls st) + (if loadingEnded env (loadingEnded_calls st) then 1 else 0)"
  by (simp_all add: completion_handler_def Let_def)

text \<open>
  Claim C2. An invocation of the completion handler rebinds the variable to the empty
  function, sets both element properties to \<^verbatim>\<open>null\<close> and cancels the timer. From such
  a state no success event, failure event or timer callback changes anything. Hence for
  every sequence of these occurrences, from every state, the final state is the initial
  one or the result of exactly one invocation of the handler on it: \<^verbatim>\<open>loadingEnded\<close>
  is called at most once and the reporter is invoked at most once.
\<close>

theorem completion_at_most_once:
  "completed (completion_handler env event st)
   \<and> (completed st \<longrightarrow> occur_all env xs st = st)
   \<and> (occur_all env xs st = st
        \<or> (\<exists>event. occur_all env xs st = completion_handler env event st))
   \<and> loadingEnded_calls (occur_all env xs st) \<le> loadingEnded_calls st + 1
   \<and> length (reportError_calls (occur_all env xs st)) \<le> length (reportError_calls st) + 1"
proof -
  from occur_all_cases[of env xs st]
  have "loadingEnded_calls (occur_all env xs st) \<le> loadingEnded_calls st + 1
        \<and> length (reportError_calls (occur_all env xs st)) \<le> length (reportError_calls st) + 1"
    by (auto simp: completion_handler_counts)
  then show ?thesis
    using occur_all_cases[of env xs st]
    by (simp add: completion_handler_completed completed_stable_all)
qed

theorem completion_at_most_once_witness:
  "completed (occur example_env TimerExpires (as_generated example_script))
   \<and> length (reportError_calls (occur example_env TimerExpires (as_generated example_script))) = 1
   \<and> occur_all example_env
        [FailureEvent (VObject [(''type'', VString ''error''), (''target'', example_script)]),
         TimerExpires,
         SuccessEvent (VObject [(''type'', VString ''load''), (''target'', example_script)])]
        (occur example_env TimerExpires (as_generated example_script))
      = occur example_env TimerExpires (as_generated example_script)"
proof -
  let ?ev = "VObject [(''type'', VString ''timeout''), (''target'', example_script)]"
  have o: "occur example_env TimerExpires (as_generated example_script)
             = completion_handler example_env ?ev (as_generated example_script)"
    by (simp add: as_generated_def)
  have c: "completed (completion_handler example_env ?ev (as_generated example_script))"
    using completion_at_most_once [of example_env ?ev "as_generated example_script"] by simp
  have n: "length (reportError_calls (completion_handler example_env ?ev (as_generated example_script))) = 1"
    by (simp add: completion_handler_def Let_def as_generated_def example_env_def)
  show ?thesis
    unfolding o
    using c n completion_at_most_once [of example_env ?ev
        "completion_handler example_env ?ev (as_generated example_script)"
        "[FailureEvent (VObject [(''type'', VString ''error''), (''target'', example_script)]),
         TimerExpires,
         SuccessEvent (VObject [(''type'', VString ''load''), (''target'', example_script)])]"]
    by simp
qed

text \<open>
  What one invocation of the completion handler does with an event object whose type is
  the string \<open>t\<close>: when \<^verbatim>\<open>loadingEnded\<close> returns a reporter, the pre-allocated error
  receives the message, the name \<^verbatim>\<open>ChunkLoadError\<close>, the kind as type and the address
  as request, and the reporter is called once with it; otherwise nothing is reported.
\<close>

lemma completion_handler_normalizes:
  assumes "map_of ps ''type'' = Some (VString t)"
      and "map_of ps ''target'' = Some target"
  shows "let st' = completion_handler env (VObject ps) st;
             kind = (if t = ''load'' then ''missing'' else t);
             address = (if js_truthy target then js_get target ''src'' else target)
         in (loadingEnded env (loadingEnded_calls st) \<longrightarrow>
               error st' = (error st)\<lparr>
                 message := VString (''Loading chunk '' @ js_to_string (chunkId env) @ '' failed.'' @ LF
                                     @ ''('' @ kind @ '': '' @ js_to_string address @ '')''),
                 name := VString ''ChunkLoadError'',
                 type := VString kind,
                 request := address\<rparr>
               \<and> reportError_calls st' = reportError_calls st @ [error st'])
            \<and> (\<not> loadingEnded env (loadingEnded_calls st) \<longrightarrow>
               error st' = error st \<and> reportError_calls st' = reportError_calls st)"
  using assms
  by (simp add: completion_handler_def Let_def js_and_def)

text \<open>
  Claim C7 fails on the code. The handler normalizes a failure only when it is invoked,
  and in the state the generated code leaves the element's success and failure events
  do not invoke it, since \<^verbatim>\<open>script.onload\<close> and \<^verbatim>\<open>script.onerror\<close> are never assigned
  the handler (the defect of the \<^verbatim>\<open>onload\<close> and \<^verbatim>\<open>onerror\<close> attributes). Whatever
  the event objects, a success event and a failure event leave the state unchanged: no
  error is populated and the reporter is not called. Only the timer reaches the handler,
  and its outcome is normalized as the claim says.
\<close>

theorem success_and_failure_events_never_reported:
  "occur env (SuccessEvent event) (as_generated el) = as_generated el
   \<and> occur env (FailureEvent event) (as_generated el) = as_generated el
   \<and> reportError_calls (occur_all env [SuccessEvent event, FailureEvent event'] (as_generated el)) = []
   \<and> error (occur_all env [SuccessEvent event, FailureEvent event'] (as_generated el))
       = \<lparr>message = VString [], name = VString ''Error'', type = VUndefined, request = VUndefined\<rparr>
   \<and> reportError_calls
        (occur example_env
           (SuccessEvent (VObject [(''type'', VString ''load''), (''target'', example_script)]))
           (as_generated example_script)) = []
   \<and> reportError_calls
        (occur example_env
           (FailureEvent (VObject [(''type'', VString ''error''), (''target'', example_script)]))
           (as_generated example_script)) = []
   \<and> reportError_calls (occur example_env TimerExpires (as_generated example_script))
       = [\<lparr>message = VString (''Loading chunk 7 failed.'' @ [CHR 0x0A] @ ''(timeout: https://cdn/7.js)''),
           name = VString ''ChunkLoadError'',
           type = VString ''timeout'',
           request = VString ''https://cdn/7.js''\<rparr>]"
proof -
  have t: "map_of [(''type'', VString ''timeout''), (''target'', example_script)] ''type''
             = Some (VString ''timeout'')"
    and g: "map_of [(''type'', VString ''timeout''), (''target'', example_script)] ''target''
             = Some example_script"
    by simp_all
  show ?thesis
    using completion_handler_normalizes [OF t g, of example_env "as_generated example_script"]
    by (simp add: Let_def as_generated_def example_env_def example_script_def LF_def)
qed

section \<open>Properties of the tag builders\<close>

lemmas object_simps = object_literal_def obj_spread_def object_entries_def array_index_simps

lemma jsonpScript_attributes_entries:
  "jsonpScript_attributes h options =
     when_truthy (jsonpScriptType options) (\<lambda>v. [(''type'', Arr [stringify h (JStr v)])])
     @ [(''charset'', Arr [stringify h (JStr ''utf-8'')]),
        (''timeout'', Arr [stringify h (JStr (seconds_string h (chunkLoadTimeout options)))]),
        (''nonce'', Arr [globalExpr h scriptNonce, globalExpr h scriptNonce]),
        (''src'', Arr [''url''])]
     @ when_truthy (crossOriginLoading options) (\<lambda>v.
         [(''crossOrigin'', Arr [stringify h (JStr v),
             ''script.src.indexOf(window.location.origin + '/') !== 0''])])
     @ [(''onload'', Str ''onScriptComplete''), (''onerror'', Str ''onScriptComplete'')]"
  unfolding jsonpScript_attributes_def
  by (cases "jsonpScriptType options"; cases "crossOriginLoading options")
     (simp_all add: object_simps)

lemma linkPreload_attributes_entries:
  "linkPreload_attributes h options =
     when_truthy (jsonpScriptType options) (\<lambda>v. [(''type'', Arr [stringify h (JStr v)])])
     @ [(''charset'', Arr [stringify h (JStr ''utf-8'')]),
        (''nonce'', Arr [globalExpr h scriptNonce, globalExpr h scriptNonce]),
        (''rel'', Arr [stringify h (JStr ''preload'')]),
        (''as'', Arr [stringify h (JStr ''script'')]),
        (''href'', Arr [globalExpr h publicPath @ '' + '' @ globalExpr h getChunkScriptFilename @ ''(chunkId)''])]
     @ when_truthy (crossOriginLoading options) (\<lambda>v.
         [(''crossOrigin'', Arr [stringify h (JStr v),
             ''link.href.indexOf(window.location.origin + '/') !== 0''])])"
  unfolding linkPreload_attributes_def
  by (cases "jsonpScriptType options"; cases "crossOriginLoading options")
     (simp_all add: object_simps)

lemma linkPrefetch_attributes_entries:
  "linkPrefetch_attributes h options =
     [(''nonce'', Arr [globalExpr h scriptNonce, globalExpr h scriptNonce]),
      (''rel'', Arr [stringify h (JStr ''prefetch'')]),
      (''as'', Arr [stringify h (JStr ''script'')]),
      (''href'', Arr [globalExpr h publicPath @ '' + '' @ globalExpr h getChunkScriptFilename @ ''(chunkId)''])]
     @ when_truthy (crossOriginLoading options) (\<lambda>v. [(''crossOrigin'', Arr [stringify h (JStr v)])])"
  unfolding linkPrefetch_attributes_def
  by (cases "crossOriginLoading options") (simp_all add: object_simps)

lemma when_truthy_no_index:
  "\<not> is_array_index k \<Longrightarrow> list_all (\<lambda>e. \<not> is_array_index (fst e)) (when_truthy x (\<lambda>v. [(k, f v)]))"
  by (cases x) simp_all

lemma renderAttributes_append:
  "list_all (\<lambda>e. \<not> is_array_index (fst e)) (xs @ ys) \<Longrightarrow>
   renderAttributes h v (xs @ ys) = concat (map (render_entry h v) xs) @ concat (map (render_entry h v) ys)"
  by (simp add: renderAttributes_def object_entries_no_index)

lemma render_nonce: 
  "render_entry h v (''nonce'', Arr [globalExpr h scriptNonce, globalExpr h scriptNonce]) = nonce_block h v"
  by (simp add: render_entry_def nonce_block_def)

lemma contains_nonce:
  assumes "list_all (\<lambda>e. \<not> is_array_index (fst e)) (xs @ (''nonce'', Arr [globalExpr h scriptNonce, globalExpr h scriptNonce]) # ys)"
  shows "contains_block (nonce_block h v)
           (renderAttributes h v (xs @ (''nonce'', Arr [globalExpr h scriptNonce, globalExpr h scriptNonce]) # ys))"
  unfolding contains_block_def
  by (intro exI[of _ "concat (map (render_entry h v) xs)"] exI[of _ "concat (map (render_entry h v) ys)"])
     (simp add: renderAttributes_def object_entries_no_index[OF assms] render_nonce)

lemma no_index_names:
  "\<not> is_array_index ''type''" "\<not> is_array_index ''charset''" "\<not> is_array_index ''timeout''"
  "\<not> is_array_index ''nonce''" "\<not> is_array_index ''src''" "\<not> is_array_index ''crossOrigin''"
  "\<not> is_array_index ''onload''" "\<not> is_array_index ''onerror''" "\<not> is_array_index ''rel''"
  "\<not> is_array_index ''as''" "\<not> is_array_index ''href''"
  by (simp_all add: array_index_simps)

lemma jsonpScript_no_index:
  "list_all (\<lambda>e. \<not> is_array_index (fst e)) (jsonpScript_attributes h options)"
  unfolding jsonpScript_attributes_entries
  by (simp add: when_truthy_no_index no_index_names)

lemma linkPreload_no_index:
  "list_all (\<lambda>e. \<not> is_array_index (fst e)) (linkPreload_attributes h options)"
  unfolding linkPreload_attributes_entries
  by (simp add: when_truthy_no_index no_index_names)

lemma linkPrefetch_no_index:
  "list_all (\<lambda>e. \<not> is_array_index (fst e)) (linkPrefetch_attributes h options)"
  unfolding linkPrefetch_attributes_entries
  by (simp add: when_truthy_no_index no_index_names)

lemma map_of_when_truthy:
  "k \<noteq> k' \<Longrightarrow> map_of (when_truthy x (\<lambda>v. [(k', f v)])) k = None"
  by (cases x) simp_all

lemma nonce_entry_and_block:
  "map_of (jsonpScript_attributes h options) ''nonce''
     = Some (Arr [globalExpr h scriptNonce, globalExpr h scriptNonce])
   \<and> map_of (linkPreload_attributes h options) ''nonce''
     = Some (Arr [globalExpr h scriptNonce, globalExpr h scriptNonce])
   \<and> map_of (linkPrefetch_attributes h options) ''nonce''
     = Some (Arr [globalExpr h scriptNonce, globalExpr h scriptNonce])
   \<and> contains_block (nonce_block h ''script'')
        (renderAttributes h ''script'' (jsonpScript_attributes h options))
   \<and> contains_block (nonce_block h ''link'')
        (renderAttributes h ''link'' (linkPreload_attributes h options))
   \<and> contains_block (nonce_block h ''link'')
        (renderAttributes h ''link'' (linkPrefetch_attributes h options))"
proof (intro conjI)
  show "map_of (jsonpScript_attributes h options) ''nonce''
     = Some (Arr [globalExpr h scriptNonce, globalExpr h scriptNonce])"
    by (simp add: jsonpScript_attributes_entries map_add_def map_of_when_truthy)
  show "map_of (linkPreload_attributes h options) ''nonce''
     = Some (Arr [globalExpr h scriptNonce, globalExpr h scriptNonce])"
    by (simp add: linkPreload_attributes_entries map_add_def map_of_when_truthy)
  show "map_of (linkPrefetch_attributes h options) ''nonce''
     = Some (Arr [globalExpr h scriptNonce, globalExpr h scriptNonce])"
    by (simp add: linkPrefetch_attributes_entries map_add_def map_of_when_truthy)
  let ?n = "(''nonce'', Arr [globalExpr h scriptNonce, globalExpr h scriptNonce])"
  have "\<exists>xs ys. jsonpScript_attributes h options = xs @ ?n # ys"
    unfolding jsonpScript_attributes_entries
    by (intro exI[of _ "when_truthy (jsonpScriptType options) (\<lambda>v. [(''type'', Arr [stringify h (JStr v)])])
           @ [(''charset'', Arr [stringify h (JStr ''utf-8'')]),
              (''timeout'', Arr [stringify h (JStr (seconds_string h (chunkLoadTimeout options)))])]"] exI)
       simp
  then obtain xs ys where s: "jsonpScript_attributes h options = xs @ ?n # ys" by blast
  show "contains_block (nonce_block h ''script'')
        (renderAttributes h ''script'' (jsonpScript_attributes h options))"
    using jsonpScript_no_index[of h options] unfolding s by (rule contains_nonce)
  have "\<exists>xs ys. linkPreload_attributes h options = xs @ ?n # ys"
    unfolding linkPreload_attributes_entries
    by (intro exI[of _ "when_truthy (jsonpScriptType options) (\<lambda>v. [(''type'', Arr [stringify h (JStr v)])])
           @ [(''charset'', Arr [stringify h (JStr ''utf-8'')])]"] exI)
       simp
  then obtain xs ys where s: "linkPreload_attributes h options = xs @ ?n # ys" by blast
  show "contains_block (nonce_block h ''link'')
        (renderAttributes h ''link'' (linkPreload_attributes h options))"
    using linkPreload_no_index[of h options] unfolding s by (rule contains_nonce)
  have "\<exists>xs ys. linkPrefetch_attributes h options = xs @ ?n # ys"
    unfolding linkPrefetch_attributes_entries
    by (intro exI[of _ "[]"] exI) simp
  then obtain xs ys where s: "linkPrefetch_attributes h options = xs @ ?n # ys" by blast
  show "contains_block (nonce_block h ''link'')
        (renderAttributes h ''link'' (linkPrefetch_attributes h options))"
    using linkPrefetch_no_index[of h options] unfolding s by (rule contains_nonce)
qed

lemma contains_block_append: "contains_block b ls \<Longrightarrow> contains_block b (pre @ ls)"
  unfolding contains_block_def
proof -
  assume "\<exists>before after. ls = before @ b @ after"
  then obtain before after where "ls = before @ b @ after" by blast
  then have "pre @ ls = (pre @ before) @ b @ after" by simp
  then show "\<exists>before after. pre @ ls = before @ b @ after" by blast
qed

lemma contains_block_subset: "contains_block b ls \<Longrightarrow> set b \<subseteq> set ls"
  unfolding contains_block_def by auto

lemma render_kept_nonce:
  assumes "map_of attributes ''nonce'' = Some (Arr [globalExpr h scriptNonce, globalExpr h scriptNonce])"
  shows "contains_block (nonce_block h v) (renderAttributes h v attributes)"
proof -
  let ?e = "(''nonce'', Arr [globalExpr h scriptNonce, globalExpr h scriptNonce])"
  have "?e \<in> set attributes" using assms by (rule map_of_SomeD)
  then have "?e \<in> set (filter (\<lambda>e. \<not> is_array_index (fst e)) attributes)"
    by (simp add: no_index_names)
  then obtain xs ys where split: "filter (\<lambda>e. \<not> is_array_index (fst e)) attributes = xs @ ?e # ys"
    by (auto dest: split_list)
  have "contains_block (nonce_block h v) (concat (map (render_entry h v) (xs @ ?e # ys)))"
    unfolding contains_block_def
    by (intro exI[of _ "concat (map (render_entry h v) xs)"]
              exI[of _ "concat (map (render_entry h v) ys)"])
       (simp add: render_nonce)
  then show ?thesis
    unfolding renderAttributes_def object_entries_def map_append concat_append split
    by (rule contains_block_append)
qed

lemma taps_emit_kept_nonce:
  "(map_of (snd (mutateTag_call (stringify h (JStr ''script'')) (jsonpScript_attributes h options))) ''nonce''
       = Some (Arr [globalExpr h scriptNonce, globalExpr h scriptNonce])
     \<longrightarrow> (\<exists>ls. jsonpScript_tap h options mutateTag_call = asString h ls
            \<and> contains_block (nonce_block h ''script'') ls))
   \<and> (map_of (snd (mutateTag_call (stringify h (JStr ''link'')) (linkPreload_attributes h options))) ''nonce''
       = Some (Arr [globalExpr h scriptNonce, globalExpr h scriptNonce])
     \<longrightarrow> (\<exists>ls. linkPreload_tap h options mutateTag_call = asString h ls
            \<and> contains_block (nonce_block h ''link'') ls))
   \<and> (map_of (snd (mutateTag_call (stringify h (JStr ''link'')) (linkPrefetch_attributes h options))) ''nonce''
       = Some (Arr [globalExpr h scriptNonce, globalExpr h scriptNonce])
     \<longrightarrow> (\<exists>ls. linkPrefetch_tap h options mutateTag_call = asString h ls
            \<and> contains_block (nonce_block h ''link'') ls))"
proof (intro conjI impI)
  assume kept: "map_of (snd (mutateTag_call (stringify h (JStr ''script'')) (jsonpScript_attributes h options))) ''nonce''
       = Some (Arr [globalExpr h scriptNonce, globalExpr h scriptNonce])"
  show "\<exists>ls. jsonpScript_tap h options mutateTag_call = asString h ls
            \<and> contains_block (nonce_block h ''script'') ls"
    unfolding jsonpScript_tap_def
    by (simp only: Let_def case_prod_beta)
       (rule exI, rule conjI, rule refl, rule contains_block_append, rule render_kept_nonce [OF kept])
next
  assume kept: "map_of (snd (mutateTag_call (stringify h (JStr ''link'')) (linkPreload_attributes h options))) ''nonce''
       = Some (Arr [globalExpr h scriptNonce, globalExpr h scriptNonce])"
  show "\<exists>ls. linkPreload_tap h options mutateTag_call = asString h ls
            \<and> contains_block (nonce_block h ''link'') ls"
    unfolding linkPreload_tap_def
    by (simp only: Let_def case_prod_beta)
       (rule exI, rule conjI, rule refl, rule contains_block_append, rule render_kept_nonce [OF kept])
next
  assume kept: "map_of (snd (mutateTag_call (stringify h (JStr ''link'')) (linkPrefetch_attributes h options))) ''nonce''
       = Some (Arr [globalExpr h scriptNonce, globalExpr h scriptNonce])"
  show "\<exists>ls. linkPrefetch_tap h options mutateTag_call = asString h ls
            \<and> contains_block (nonce_block h ''link'') ls"
    unfolding linkPrefetch_tap_def
    by (simp only: Let_def case_prod_beta)
       (rule exI, rule conjI, rule refl, rule contains_block_append, rule render_kept_nonce [OF kept])
qed

text \<open>
  Claim C10, as far as it holds. Whatever the output options, the attribute object each
  of the three tag builders hands to \<^verbatim>\<open>mutateTag\<close> has a \<^verbatim>\<open>nonce\<close> entry whose value
  expression and guard expression are both the nonce global, and rendering that object
  emits the assignment of the nonce inside a conditional on the nonce expression. The
  code a builder generates emits it for every \<^verbatim>\<open>mutateTag\<close> pipeline whose returned
  attributes still hold that entry.
\<close>

theorem nonce_always_present:
  "map_of (jsonpScript_attributes h options) ''nonce''
     = Some (Arr [globalExpr h scriptNonce, globalExpr h scriptNonce])
   \<and> map_of (linkPreload_attributes h options) ''nonce''
     = Some (Arr [globalExpr h scriptNonce, globalExpr h scriptNonce])
   \<and> map_of (linkPrefetch_attributes h options) ''nonce''
     = Some (Arr [globalExpr h scriptNonce, globalExpr h scriptNonce])
   \<and> contains_block (nonce_block h ''script'')
        (renderAttributes h ''script'' (jsonpScript_attributes h options))
   \<and> contains_block (nonce_block h ''link'')
        (renderAttributes h ''link'' (linkPreload_attributes h options))
   \<and> contains_block (nonce_block h ''link'')
        (renderAttributes h ''link'' (linkPrefetch_attributes h options))
   \<and> (map_of (snd (mutateTag_call (stringify h (JStr ''script'')) (jsonpScript_attributes h options))) ''nonce''
       = Some (Arr [globalExpr h scriptNonce, globalExpr h scriptNonce])
     \<longrightarrow> (\<exists>ls. jsonpScript_tap h options mutateTag_call = asString h ls
            \<and> contains_block (nonce_block h ''script'') ls))
   \<and> (map_of (snd (mutateTag_call (stringify h (JStr ''link'')) (linkPreload_attributes h options))) ''nonce''
       = Some (Arr [globalExpr h scriptNonce, globalExpr h scriptNonce])
     \<longrightarrow> (\<exists>ls. linkPreload_tap h options mutateTag_call = asString h ls
            \<and> contains_block (nonce_block h ''link'') ls))
   \<and> (map_of (snd (mutateTag_call (stringify h (JStr ''link'')) (linkPrefetch_attributes h options))) ''nonce''
       = Some (Arr [globalExpr h scriptNonce, globalExpr h scriptNonce])
     \<longrightarrow> (\<exists>ls. linkPrefetch_tap h options mutateTag_call = asString h ls
            \<and> contains_block (nonce_block h ''link'') ls))"
  using nonce_entry_and_block [of h options] taps_emit_kept_nonce [of mutateTag_call h options]
  by (simp only: simp_thms)

theorem nonce_always_present_witness:
  \<open>map_of (snd ((\<lambda>tag attributes. (tag, attributes)) (stringify example_host (JStr ''link''))
                   (linkPrefetch_attributes example_host example_options))) ''nonce''
     = Some (Arr [globalExpr example_host scriptNonce, globalExpr example_host scriptNonce])
   \<and> map_of (snd ((\<lambda>tag attributes. (tag, attributes)) (stringify example_host (JStr ''link''))
                   (linkPreload_attributes example_host example_options))) ''nonce''
     = Some (Arr [globalExpr example_host scriptNonce, globalExpr example_host scriptNonce])
   \<and> map_of (snd ((\<lambda>tag attributes. (tag, attributes)) (stringify example_host (JStr ''script''))
                   (jsonpScript_attributes example_host example_options))) ''nonce''
     = Some (Arr [globalExpr example_host scriptNonce, globalExpr example_host scriptNonce])
   \<and> (\<exists>ls. jsonpScript_tap example_host example_options (\<lambda>tag attributes. (tag, attributes))
              = asString example_host ls
          \<and> contains_block (nonce_block example_host ''script'') ls)
   \<and> (\<exists>ls. linkPreload_tap example_host example_options (\<lambda>tag attributes. (tag, attributes))
              = asString example_host ls
          \<and> contains_block (nonce_block example_host ''link'') ls)
   \<and> (\<exists>ls. linkPrefetch_tap example_host example_options (\<lambda>tag attributes. (tag, attributes))
              = asString example_host ls
          \<and> contains_block (nonce_block example_host ''link'') ls)
   \<and> linkPrefetch_tap example_host example_options (\<lambda>tag attributes. (tag, attributes))
       = ''var link = document.createElement("link");'' @ [CHR 0x0A]
         @ ''if (__webpack_require__.nc) {'' @ [CHR 0x0A]
         @ [CHR 0x09] @ ''link.nonce = __webpack_require__.nc;'' @ [CHR 0x0A]
         @ ''}'' @ [CHR 0x0A]
         @ ''link.rel = "prefetch";'' @ [CHR 0x0A]
         @ ''link.as = "script";'' @ [CHR 0x0A]
         @ ''link.href = __webpack_require__.p + __webpack_require__.u(chunkId);'' @ [CHR 0x0A]
         @ ''link.crossOrigin = "anonymous";'' @ [CHR 0x0A]\<close>
proof -
  have generated: \<open>linkPrefetch_tap example_host example_options (\<lambda>tag attributes. (tag, attributes))
       = ''var link = document.createElement("link");'' @ [CHR 0x0A]
         @ ''if (__webpack_require__.nc) {'' @ [CHR 0x0A]
         @ [CHR 0x09] @ ''link.nonce = __webpack_require__.nc;'' @ [CHR 0x0A]
         @ ''}'' @ [CHR 0x0A]
         @ ''link.rel = "prefetch";'' @ [CHR 0x0A]
         @ ''link.as = "script";'' @ [CHR 0x0A]
         @ ''link.href = __webpack_require__.p + __webpack_require__.u(chunkId);'' @ [CHR 0x0A]
         @ ''link.crossOrigin = "anonymous";'' @ [CHR 0x0A]\<close>
    by (simp add: linkPrefetch_tap_def linkPrefetch_attributes_entries renderAttributes_def
          object_entries_def array_index_simps render_entry_def example_host_def
          example_options_def)
  show ?thesis
    using nonce_always_present [of example_host example_options "\<lambda>tag attributes. (tag, attributes)"]
    unfolding generated by simp
qed

text \<open>
  Claim C10 as stated fails: what the generated code emits is decided by the attributes
  the \<^verbatim>\<open>mutateTag\<close> pipeline returns, not by the object the builder hands to it. A
  transform that drops the \<^verbatim>\<open>nonce\<close> attribute leaves no nonce assignment in the
  generated code. And with no transform registered the pipeline returns the tag string
  alone, whose second character the builder takes for the attributes: for the tag
  \<^verbatim>\<open>"link"\<close> the generated code is \<^verbatim>\<open>link.0 = l;\<close>.
\<close>

theorem nonce_omitted_counterexample:
  \<open>linkPrefetch_tap example_host example_options without_nonce
     = ''var link = document.createElement("link");'' @ [CHR 0x0A]
       @ ''link.rel = "prefetch";'' @ [CHR 0x0A]
       @ ''link.as = "script";'' @ [CHR 0x0A]
       @ ''link.href = __webpack_require__.p + __webpack_require__.u(chunkId);'' @ [CHR 0x0A]
       @ ''link.crossOrigin = "anonymous";'' @ [CHR 0x0A]
   \<and> \<not> contains_block (nonce_block example_host ''link'')
         (renderAttributes example_host ''link''
            (snd (without_nonce (stringify example_host (JStr ''link''))
                    (linkPrefetch_attributes example_host example_options))))
   \<and> destructure_string (stringify example_host (JStr ''link''))
       = Some ([CHR 0x22], [(''0'', Str ''l'')])
   \<and> linkPrefetch_tap example_host example_options (\<lambda>tag attributes. ([CHR 0x22], [(''0'', Str ''l'')]))
       = ''var link = document.createElement(");'' @ [CHR 0x0A] @ ''link.0 = l;'' @ [CHR 0x0A]
   \<and> \<not> contains_block (nonce_block example_host ''link'')
         (renderAttributes example_host ''link'' [(''0'', Str ''l'')])\<close>
proof -
  have dropped: "snd (without_nonce (stringify example_host (JStr ''link''))
                    (linkPrefetch_attributes example_host example_options))
      = [(''rel'', Arr [stringify example_host (JStr ''prefetch'')]),
         (''as'', Arr [stringify example_host (JStr ''script'')]),
         (''href'', Arr [globalExpr example_host publicPath @ '' + ''
                          @ globalExpr example_host getChunkScriptFilename @ ''(chunkId)'']),
         (''crossOrigin'', Arr [stringify example_host (JStr ''anonymous'')])]"
    unfolding linkPrefetch_attributes_entries
    by (simp add: without_nonce_def example_options_def)
  have lines: \<open>renderAttributes example_host ''link''
         (snd (without_nonce (stringify example_host (JStr ''link''))
                 (linkPrefetch_attributes example_host example_options)))
      = [''link.rel = "prefetch";'', ''link.as = "script";'',
         ''link.href = __webpack_require__.p + __webpack_require__.u(chunkId);'',
         ''link.crossOrigin = "anonymous";'']\<close>
    unfolding dropped
    by (simp add: renderAttributes_def object_entries_def array_index_simps render_entry_def
          example_host_def)
  have a: \<open>linkPrefetch_tap example_host example_options without_nonce
     = ''var link = document.createElement("link");'' @ [CHR 0x0A]
       @ ''link.rel = "prefetch";'' @ [CHR 0x0A]
       @ ''link.as = "script";'' @ [CHR 0x0A]
       @ ''link.href = __webpack_require__.p + __webpack_require__.u(chunkId);'' @ [CHR 0x0A]
       @ ''link.crossOrigin = "anonymous";'' @ [CHR 0x0A]\<close>
    unfolding linkPrefetch_tap_def Let_def case_prod_beta lines
    by (simp add: without_nonce_def example_host_def)
  have b: "\<not> contains_block (nonce_block example_host ''link'')
         (renderAttributes example_host ''link''
            (snd (without_nonce (stringify example_host (JStr ''link''))
                    (linkPrefetch_attributes example_host example_options))))"
    unfolding lines
    by (auto dest!: contains_block_subset simp: nonce_block_def example_host_def)
  have c: "destructure_string (stringify example_host (JStr ''link''))
       = Some ([CHR 0x22], [(''0'', Str ''l'')])"
    by (simp add: destructure_string_def example_host_def)
  have lines2: "renderAttributes example_host ''link'' [(''0'', Str ''l'')] = [''link.0 = l;'']"
    by (simp add: renderAttributes_def object_entries_def array_index_simps render_entry_def)
  have d: \<open>linkPrefetch_tap example_host example_options (\<lambda>tag attributes. ([CHR 0x22], [(''0'', Str ''l'')]))
       = ''var link = document.createElement(");'' @ [CHR 0x0A] @ ''link.0 = l;'' @ [CHR 0x0A]\<close>
    unfolding linkPrefetch_tap_def Let_def case_prod_beta snd_conv fst_conv lines2
    by (simp add: example_host_def)
  have e: "\<not> contains_block (nonce_block example_host ''link'')
         (renderAttributes example_host ''link'' [(''0'', Str ''l'')])"
    unfolding lines2
    by (auto dest!: contains_block_subset simp: nonce_block_def example_host_def)
  from a b c d e show ?thesis by (intro conjI)
qed

lemma render_string_valued:
  "render_entry h v (k, Str ''onScriptComplete'')
     = [''if (n) {'', indent h (v @ ''.'' @ k @ '' = o;''), ''}'']"
  by (simp add: render_entry_def)

text \<open>
  Claim C6 fails on the code. The script-tag builder stores the plain string
  \<^verbatim>\<open>"onScriptComplete"\<close> under \<^verbatim>\<open>onload\<close> and \<^verbatim>\<open>onerror\<close>, where the renderer expects
  an array of expressions; the renderer reads the first character as the value and the
  second as the guard. For every host and every configuration the rendered attributes
  end with \<^verbatim>\<open>if (n) { script.onload = o; }\<close> and \<^verbatim>\<open>if (n) { script.onerror = o; }\<close>,
  and at the example configuration no line assigns the completion handler.
\<close>

theorem jsonpScript_event_handlers_misrendered:
  \<open>(\<exists>before. renderAttributes h ''script'' (jsonpScript_attributes h options)
       = before @ [''if (n) {'', indent h ''script.onload = o;'', ''}'',
                   ''if (n) {'', indent h ''script.onerror = o;'', ''}''])
   \<and> renderAttributes example_host ''script'' (jsonpScript_attributes example_host example_options)
       = [''script.charset = "utf-8";'',
          ''script.timeout = "120";'',
          ''if (__webpack_require__.nc) {'',
          [CHR 0x09] @ ''script.nonce = __webpack_require__.nc;'',
          ''}'',
          ''script.src = url;'',
          ''if (script.src.indexOf(window.location.origin + '/') !== 0) {'',
          [CHR 0x09] @ ''script.crossOrigin = "anonymous";'',
          ''}'',
          ''if (n) {'',
          [CHR 0x09] @ ''script.onload = o;'',
          ''}'',
          ''if (n) {'',
          [CHR 0x09] @ ''script.onerror = o;'',
          ''}'']
   \<and> ''script.onload = onScriptComplete;''
        \<notin> set (renderAttributes example_host ''script'' (jsonpScript_attributes example_host example_options))
   \<and> ''script.onerror = onScriptComplete;''
        \<notin> set (renderAttributes example_host ''script'' (jsonpScript_attributes example_host example_options))\<close>
proof -
  have general: "\<exists>before. renderAttributes h ''script'' (jsonpScript_attributes h options)
       = before @ [''if (n) {'', indent h ''script.onload = o;'', ''}'',
                   ''if (n) {'', indent h ''script.onerror = o;'', ''}'']"
    unfolding renderAttributes_def object_entries_no_index[OF jsonpScript_no_index]
    unfolding jsonpScript_attributes_entries
    by (simp add: render_string_valued)
  have concrete: \<open>renderAttributes example_host ''script'' (jsonpScript_attributes example_host example_options)
       = [''script.charset = "utf-8";'',
          ''script.timeout = "120";'',
          ''if (__webpack_require__.nc) {'',
          [CHR 0x09] @ ''script.nonce = __webpack_require__.nc;'',
          ''}'',
          ''script.src = url;'',
          ''if (script.src.indexOf(window.location.origin + '/') !== 0) {'',
          [CHR 0x09] @ ''script.crossOrigin = "anonymous";'',
          ''}'',
          ''if (n) {'',
          [CHR 0x09] @ ''script.onload = o;'',
          ''}'',
          ''if (n) {'',
          [CHR 0x09] @ ''script.onerror = o;'',
          ''}'']\<close>
    unfolding renderAttributes_def object_entries_no_index[OF jsonpScript_no_index]
    unfolding jsonpScript_attributes_entries
    by (simp add: render_entry_def example_host_def example_options_def show_nat.simps)
  show ?thesis
    unfolding concrete using general by simp
qed

end
